theory Spec2Isabelle
  imports Main
begin

section \<open>Strings and bytes\<close>

text \<open>
  The script \<^verbatim>\<open>inject_sketch_name.py\<close> works on Python \<^verbatim>\<open>str\<close> values
  (sequences of Unicode code points) and, between \<^verbatim>\<open>check_output\<close> and
  \<^verbatim>\<open>decode\<close>, on \<^verbatim>\<open>bytes\<close>. A \<^verbatim>\<open>str\<close> is modelled as the list of its code
  points, a \<^verbatim>\<open>bytes\<close> object as a list of 8-bit characters. \<open>str\<close> turns an
  ASCII literal into the \<^verbatim>\<open>str\<close> with the same characters.
\<close>

type_synonym str = "nat list"
type_synonym bytes = "char list"

definition str :: "string \<Rightarrow> str" where
  "str s = map of_char s"

section \<open>\<^verbatim>\<open>os.path\<close> (posixpath)\<close>

text \<open>
  \<^verbatim>\<open>os.path.join\<close>, \<^verbatim>\<open>os.path.dirname\<close> and \<^verbatim>\<open>os.path.split\<close> as CPython's
  \<^verbatim>\<open>posixpath\<close> defines them, for \<^verbatim>\<open>str\<close> arguments. \<open>rfind\<close> is
  \<^verbatim>\<open>str.rfind\<close> for a one-character needle: the highest index where it occurs, or -1.
\<close>

definition sep :: nat where
  "sep = 47"

fun rfind :: "str \<Rightarrow> nat \<Rightarrow> int" where
  "rfind [] c = -1"
| "rfind (x # xs) c =
     (let r = rfind xs c in if 0 \<le> r then r + 1 else if x = c then 0 else -1)"

definition rstrip_sep :: "str \<Rightarrow> str" where
  "rstrip_sep s = rev (dropWhile (\<lambda>c. c = sep) (rev s))"

definition startswith_sep :: "str \<Rightarrow> bool" where
  "startswith_sep s = (case s of [] \<Rightarrow> False | c # _ \<Rightarrow> c = sep)"

definition endswith_sep :: "str \<Rightarrow> bool" where
  "endswith_sep s = (case rev s of [] \<Rightarrow> False | c # _ \<Rightarrow> c = sep)"

definition join :: "str \<Rightarrow> str \<Rightarrow> str" where
  "join a b =
     (if startswith_sep b then b
      else if a = [] \<or> endswith_sep a then a @ b
      else a @ [sep] @ b)"

definition split :: "str \<Rightarrow> str \<times> str" where
  "split p =
     (let i = nat (rfind p sep + 1);
          head = take i p;
          tail = drop i p
      in (if head \<noteq> [] \<and> head \<noteq> replicate (length head) sep
          then rstrip_sep head else head, tail))"

definition dirname :: "str \<Rightarrow> str" where
  "dirname p =
     (let i = nat (rfind p sep + 1);
          head = take i p
      in if head \<noteq> [] \<and> head \<noteq> replicate (length head) sep
         then rstrip_sep head else head)"

section \<open>The project name\<close>

text \<open>
  Lines 19 and 21 of the script:
  \<^verbatim>\<open>proj_path = os.path.join(env["PROJECT_DIR"], "dummy")\<close> and
  \<^verbatim>\<open>macro_value = f"\"{os.path.split(os.path.dirname(proj_path))[1]}\""\<close>.
  \<open>quote\<close> is the f-string \<^verbatim>\<open>f"\"{s}\""\<close>.
\<close>

definition quote :: "str \<Rightarrow> str" where
  "quote s = [34] @ s @ [34]"

definition proj_path :: "str \<Rightarrow> str" where
  "proj_path project_dir = join project_dir (str ''dummy'')"

definition project_name :: "str \<Rightarrow> str" where
  "project_name project_dir = snd (split (dirname (proj_path project_dir)))"

definition macro_value :: "str \<Rightarrow> str" where
  "macro_value project_dir = quote (project_name project_dir)"

section \<open>\<^verbatim>\<open>bytes.decode('utf-8')\<close> and \<^verbatim>\<open>str.strip()\<close>\<close>

text \<open>
  The exceptions the script can meet. \<open>CalledProcessError\<close> carries the exit status.
\<close>

datatype py_error =
  KeyError | ValueError | OSError | UnicodeDecodeError | CalledProcessError int

text \<open>
  The strict UTF-8 decoder: a byte sequence that is not well-formed UTF-8 (a stray
  continuation byte, a truncated or overlong sequence, a surrogate, a code point above
  U+10FFFF) raises \<^verbatim>\<open>UnicodeDecodeError\<close>, here \<open>None\<close> of \<open>utf8\<close>.
\<close>

definition cont :: "nat \<Rightarrow> bool" where
  "cont b = (128 \<le> b \<and> b < 192)"

fun utf8 :: "nat list \<Rightarrow> str option" where
  "utf8 [] = Some []"
| "utf8 (b0 # bs) =
     (if b0 < 128 then map_option ((#) b0) (utf8 bs)
      else if 194 \<le> b0 \<and> b0 < 224 then
        (case bs of
           b1 # r \<Rightarrow>
             if cont b1
             then map_option ((#) ((b0 - 192) * 64 + (b1 - 128))) (utf8 r)
             else None
         | _ \<Rightarrow> None)
      else if 224 \<le> b0 \<and> b0 < 240 then
        (case bs of
           b1 # b2 # r \<Rightarrow>
             if cont b1 \<and> cont b2
                \<and> (if b0 = 224 then 160 \<le> b1 else True)
                \<and> (if b0 = 237 then b1 < 160 else True)
             then map_option ((#) ((b0 - 224) * 4096 + (b1 - 128) * 64 + (b2 - 128))) (utf8 r)
             else None
         | _ \<Rightarrow> None)
      else if 240 \<le> b0 \<and> b0 < 245 then
        (case bs of
           b1 # b2 # b3 # r \<Rightarrow>
             if cont b1 \<and> cont b2 \<and> cont b3
                \<and> (if b0 = 240 then 144 \<le> b1 else True)
                \<and> (if b0 = 244 then b1 < 144 else True)
             then map_option
                    ((#) ((b0 - 240) * 262144 + (b1 - 128) * 4096 + (b2 - 128) * 64 + (b3 - 128)))
                    (utf8 r)
             else None
         | _ \<Rightarrow> None)
      else None)"

definition decode :: "bytes \<Rightarrow> py_error + str" where
  "decode bs = (case utf8 (map of_char bs) of None \<Rightarrow> Inl UnicodeDecodeError | Some s \<Rightarrow> Inr s)"

text \<open>
  \<^verbatim>\<open>str.isspace\<close> for one character, as CPython's \<^verbatim>\<open>_PyUnicode_IsWhitespace\<close> lists
  them, and \<^verbatim>\<open>str.strip()\<close> with no argument.
\<close>

definition isspace :: "nat \<Rightarrow> bool" where
  "isspace c =
     (c \<in> {9, 10, 11, 12, 13, 28, 29, 30, 31, 32, 133, 160, 5760,
            8232, 8233, 8239, 8287, 12288}
      \<or> (8192 \<le> c \<and> c \<le> 8202))"

definition strip :: "str \<Rightarrow> str" where
  "strip s = rev (dropWhile isspace (rev (dropWhile isspace s)))"

section \<open>\<^verbatim>\<open>datetime\<close>\<close>

text \<open>
  A \<^verbatim>\<open>datetime\<close> value: its calendar fields and, for an aware value, the UTC offset
  of its \<^verbatim>\<open>tzinfo\<close> in seconds (\<open>None\<close> for a naive value). The offset that
  \<^verbatim>\<open>astimezone()\<close> attaches comes from the C library's \<^verbatim>\<open>tm_gmtoff\<close>, a whole
  number of seconds.
\<close>

record datetime =
  year :: nat
  month :: nat
  day :: nat
  hour :: nat
  minute :: nat
  second :: nat
  microsecond :: nat
  utcoffset :: "int option"

text \<open>\<^verbatim>\<open>"%d" % n\<close> and \<^verbatim>\<open>"%0wd" % n\<close> for a non-negative \<open>n\<close>.\<close>

fun digits :: "nat \<Rightarrow> str" where
  "digits n = (if n < 10 then [48 + n] else digits (n div 10) @ [48 + n mod 10])"

declare digits.simps [simp del]

definition zpad :: "nat \<Rightarrow> nat \<Rightarrow> str" where
  "zpad w n = replicate (w - length (digits n)) 48 @ digits n"

text \<open>
  \<^verbatim>\<open>_format_time\<close> with \<^verbatim>\<open>timespec='auto'\<close>: the fraction is printed only when the
  microseconds are not zero.
\<close>

definition format_time :: "nat \<Rightarrow> nat \<Rightarrow> nat \<Rightarrow> nat \<Rightarrow> str" where
  "format_time hh mm ss us =
     zpad 2 hh @ [58] @ zpad 2 mm @ [58] @ zpad 2 ss
     @ (if us \<noteq> 0 then [46] @ zpad 6 us else [])"

text \<open>
  \<^verbatim>\<open>_format_offset\<close>: sign, hours and minutes, and the seconds when they are not zero.
\<close>

definition format_offset :: "int option \<Rightarrow> str" where
  "format_offset off =
     (case off of
        None \<Rightarrow> []
      | Some d \<Rightarrow>
          (let sign = (if d < 0 then 45 else 43);
               a = nat \<bar>d\<bar>;
               hh = a div 3600;
               mm = a mod 3600 div 60;
               ss = a mod 60
           in [sign] @ zpad 2 hh @ [58] @ zpad 2 mm
              @ (if ss \<noteq> 0 then [58] @ zpad 2 ss else [])))"

definition isoformat :: "nat \<Rightarrow> datetime \<Rightarrow> str" where
  "isoformat sp dt =
     zpad 4 (year dt) @ [45] @ zpad 2 (month dt) @ [45] @ zpad 2 (day dt) @ [sp]
     @ format_time (hour dt) (minute dt) (second dt) (microsecond dt)
     @ format_offset (utcoffset dt)"

section \<open>The build environment, the host and the effects of the script\<close>

text \<open>
  The SCons environment that \<^verbatim>\<open>Import("env")\<close> binds: its construction variables
  (the script reads \<^verbatim>\<open>env["PROJECT_DIR"]\<close>) and its \<^verbatim>\<open>CPPDEFINES\<close> list of
  name and value pairs.
\<close>

record build_env =
  vars :: "str \<rightharpoonup> str"
  CPPDEFINES :: "(str \<times> str) list"

text \<open>
  What the script finds outside itself. \<open>run h args\<close> is what happens to the child
  process of \<^verbatim>\<open>subprocess.check_output(args, shell=True)\<close>: it runs and exits with a
  status and its standard output, or it cannot be started at all (\<^verbatim>\<open>Popen\<close> raises
  \<^verbatim>\<open>OSError\<close>). The child is the shell, so a \<^verbatim>\<open>git\<close> that is not installed is a
  non-zero exit status of the shell. What the shell makes of the list \<open>args\<close> is the
  platform's matter and is not modelled: \<open>run\<close> answers for the list the script
  passes. \<open>wall h\<close> is the local wall-clock reading of
  \<^verbatim>\<open>datetime.now()\<close> and \<open>gmtoff h\<close> the UTC offset of the local time zone at that
  reading, in seconds.
\<close>

datatype proc_outcome = Exited int bytes | NotStarted

record host =
  run :: "str list \<Rightarrow> proc_outcome"
  wall :: datetime
  gmtoff :: int

text \<open>
  Every interaction of a script with the world outside it is an \<open>effect\<close>; a
  computation yields the effects it performed, in order, and a value or the exception it
  raised. \<open>ReadEnviron\<close> (a read of \<^verbatim>\<open>os.environ\<close>) and \<open>WriteFile\<close> are effects
  a build script can have; no operation of this script performs them.
\<close>

datatype effect =
    GetItem str
  | ClockNow
  | Spawn "str list"
  | AppendCPPDEFINES "(str \<times> str) list"
  | ReadEnviron str
  | WriteFile str bytes

type_synonym 'a io = "effect list \<times> (py_error + 'a)"

definition return :: "'a \<Rightarrow> 'a io" where
  "return x = ([], Inr x)"

definition perform :: "effect \<Rightarrow> (py_error + 'a) \<Rightarrow> 'a io" where
  "perform ev r = ([ev], r)"

definition bind :: "'a io \<Rightarrow> ('a \<Rightarrow> 'b io) \<Rightarrow> 'b io" where
  "bind m f =
     (case m of
        (t, Inl e) \<Rightarrow> (t, Inl e)
      | (t, Inr x) \<Rightarrow> (case f x of (t', r) \<Rightarrow> (t @ t', r)))"

text \<open>
  \<^verbatim>\<open>try: body  except CalledProcessError: handler\<close>: only that exception class is
  caught.
\<close>

definition except_CalledProcessError :: "'a io \<Rightarrow> 'a io \<Rightarrow> 'a io" where
  "except_CalledProcessError body handler =
     (case body of
        (t, Inl (CalledProcessError rc)) \<Rightarrow> (case handler of (t', r) \<Rightarrow> (t @ t', r))
      | (t, r) \<Rightarrow> (t, r))"

definition check_output :: "host \<Rightarrow> str list \<Rightarrow> bytes io" where
  "check_output h args =
     perform (Spawn args)
       (case run h args of
          NotStarted \<Rightarrow> Inl OSError
        | Exited rc out \<Rightarrow> if rc = 0 then Inr out else Inl (CalledProcessError rc))"

definition getitem :: "build_env \<Rightarrow> str \<Rightarrow> str io" where
  "getitem env k =
     perform (GetItem k) (case vars env k of None \<Rightarrow> Inl KeyError | Some v \<Rightarrow> Inr v)"

definition datetime_now :: "host \<Rightarrow> datetime io" where
  "datetime_now h = perform ClockNow (Inr ((wall h)\<lparr>utcoffset := None\<rparr>))"

definition replace_microsecond_0 :: "datetime \<Rightarrow> datetime" where
  "replace_microsecond_0 dt = dt\<lparr>microsecond := 0\<rparr>"

text \<open>
  \<^verbatim>\<open>astimezone()\<close> with no argument, on the naive value the script gives it. It builds
  the local \<^verbatim>\<open>timezone\<close> from \<^verbatim>\<open>tm_gmtoff\<close>, and the \<^verbatim>\<open>timezone\<close> constructor
  raises \<^verbatim>\<open>ValueError\<close> unless the offset is strictly between -24 and 24 hours
  (\<open>valid_gmtoff\<close>; a \<^verbatim>\<open>TZ\<close> setting such as \<^verbatim>\<open>XXX-24\<close> gives 86400 seconds).
  Otherwise the result has the same wall-clock fields, now with that offset.
\<close>

definition valid_gmtoff :: "int \<Rightarrow> bool" where
  "valid_gmtoff d = (- 86400 < d \<and> d < 86400)"

definition astimezone :: "host \<Rightarrow> datetime \<Rightarrow> py_error + datetime" where
  "astimezone h dt =
     (if valid_gmtoff (gmtoff h) then Inr (dt\<lparr>utcoffset := Some (gmtoff h)\<rparr>)
      else Inl ValueError)"

definition Append :: "(str \<times> str) list \<Rightarrow> unit io" where
  "Append defs = perform (AppendCPPDEFINES defs) (Inr ())"

section \<open>The script\<close>

definition rev_parse_cmd :: "str list" where
  "rev_parse_cmd = [str ''git'', str ''rev-parse'', str ''--short'', str ''HEAD'']"

definition branch_cmd :: "str list" where
  "branch_cmd = [str ''git'', str ''branch'', str ''--show-current'']"

definition get_git_revision_short_hash :: "host \<Rightarrow> str io" where
  "get_git_revision_short_hash h =
     except_CalledProcessError
       (bind (check_output h rev_parse_cmd) (\<lambda>out.
        bind ([], decode out) (\<lambda>s.
        return (strip s))))
       (return (str ''N/A''))"

definition get_git_current_branch :: "host \<Rightarrow> str io" where
  "get_git_current_branch h =
     except_CalledProcessError
       (bind (check_output h branch_cmd) (\<lambda>out.
        bind ([], decode out) (\<lambda>s.
        return (strip s))))
       (return (str ''N/A''))"

text \<open>
  Line 22 after the clock is read:
  \<^verbatim>\<open>now.replace(microsecond=0).astimezone().isoformat(' ')\<close>.
\<close>

definition tz_dt :: "datetime \<Rightarrow> host \<Rightarrow> py_error + str" where
  "tz_dt now h =
     (case astimezone h (replace_microsecond_0 now) of
        Inl e \<Rightarrow> Inl e
      | Inr aware \<Rightarrow> Inr (isoformat 32 aware))"

text \<open>
  Lines 18 to 29. The timestamp of line 22 is computed before the list given to
  \<^verbatim>\<open>env.Append\<close> is built; the elements of that list are evaluated in order, so the
  branch is queried before the hash, and \<^verbatim>\<open>Append\<close> runs last.
\<close>

definition script :: "host \<Rightarrow> build_env \<Rightarrow> unit io" where
  "script h env =
     bind (getitem env (str ''PROJECT_DIR'')) (\<lambda>project_dir.
     bind (datetime_now h) (\<lambda>now.
     bind ([], tz_dt now h) (\<lambda>stamp.
     bind (get_git_current_branch h) (\<lambda>branch.
     bind (get_git_revision_short_hash h) (\<lambda>hash.
     Append
       [(str ''PROJECT_PATH'', macro_value project_dir),
        (str ''CURRENT_TIME'', quote stamp),
        (str ''BRANCH_NAME'', quote branch),
        (str ''COMMIT_HASH'', quote hash)])))))"

text \<open>
  The environment after a run: each effect applied in order. Only
  \<open>AppendCPPDEFINES\<close> changes it. \<open>registered\<close> lists the definitions a run appended
  and \<open>raised\<close> is the exception that ended it, if any.
\<close>

fun apply_effect :: "build_env \<Rightarrow> effect \<Rightarrow> build_env" where
  "apply_effect env (AppendCPPDEFINES defs) = env\<lparr>CPPDEFINES := CPPDEFINES env @ defs\<rparr>"
| "apply_effect env _ = env"

definition env_after :: "host \<Rightarrow> build_env \<Rightarrow> build_env" where
  "env_after h env = foldl apply_effect env (fst (script h env))"

fun appended :: "effect \<Rightarrow> (str \<times> str) list" where
  "appended (AppendCPPDEFINES defs) = defs"
| "appended _ = []"

definition registered :: "host \<Rightarrow> build_env \<Rightarrow> (str \<times> str) list" where
  "registered h env = concat (map appended (fst (script h env)))"

definition raised :: "host \<Rightarrow> build_env \<Rightarrow> py_error option" where
  "raised h env = (case snd (script h env) of Inl e \<Rightarrow> Some e | Inr _ \<Rightarrow> None)"

section \<open>What the specification speaks of\<close>

text \<open>
  The final segment of a path, in the specification's words "regardless of trailing
  separators": the characters after the last separator, once the separators at the end
  of the path are left out.
\<close>

definition spec_final_segment :: "str \<Rightarrow> str" where
  "spec_final_segment p =
     rev (takeWhile (\<lambda>c. c \<noteq> sep) (dropWhile (\<lambda>c. c = sep) (rev p)))"

text \<open>
  The field ranges of a \<^verbatim>\<open>datetime\<close> object (\<^verbatim>\<open>MINYEAR\<close> is 1 and \<^verbatim>\<open>MAXYEAR\<close> is
  9999).
\<close>

definition valid_datetime :: "datetime \<Rightarrow> bool" where
  "valid_datetime dt =
     (1 \<le> year dt \<and> year dt \<le> 9999 \<and> 1 \<le> month dt \<and> month dt \<le> 12
      \<and> 1 \<le> day dt \<and> day dt \<le> 31 \<and> hour dt < 24 \<and> minute dt < 60
      \<and> second dt < 60 \<and> microsecond dt < 1000000)"

text \<open>
  Parsing a timestamp back, for "parseable back into a timestamp": a reader of
  ISO-8601 date and time separated by a space, \<^verbatim>\<open>YYYY-MM-DD HH:MM:SS\<close>, then an optional
  fraction \<^verbatim>\<open>.ffffff\<close>, then an optional offset \<^verbatim>\<open>+HH:MM\<close> or \<^verbatim>\<open>+HH:MM:SS\<close> (or with
  \<^verbatim>\<open>-\<close>). It fails on anything else. \<open>take_digits k acc s\<close> reads exactly \<open>k\<close>
  decimal digits.
\<close>

definition digit :: "nat \<Rightarrow> nat option" where
  "digit c = (if 48 \<le> c \<and> c \<le> 57 then Some (c - 48) else None)"

fun take_digits :: "nat \<Rightarrow> nat \<Rightarrow> str \<Rightarrow> (nat \<times> str) option" where
  "take_digits 0 acc s = Some (acc, s)"
| "take_digits (Suc k) acc [] = None"
| "take_digits (Suc k) acc (c # s) =
     (case digit c of None \<Rightarrow> None | Some d \<Rightarrow> take_digits k (10 * acc + d) s)"

fun expect :: "nat \<Rightarrow> str \<Rightarrow> str option" where
  "expect c [] = None"
| "expect c (x # s) = (if x = c then Some s else None)"

definition parse_fraction :: "str \<Rightarrow> (nat \<times> str) option" where
  "parse_fraction s =
     (case s of
        [] \<Rightarrow> Some (0, [])
      | c # r \<Rightarrow> if c = 46 then take_digits 6 0 r else Some (0, s))"

definition parse_offset :: "str \<Rightarrow> int option option" where
  "parse_offset s =
     (case s of
        [] \<Rightarrow> Some None
      | c # r \<Rightarrow>
          if c = 43 \<or> c = 45 then
            Option.bind (take_digits 2 0 r) (\<lambda>(hh, r).
            Option.bind (expect 58 r) (\<lambda>r.
            Option.bind (take_digits 2 0 r) (\<lambda>(mm, r).
            Option.bind
              (case r of
                 [] \<Rightarrow> Some 0
               | _ \<Rightarrow>
                   Option.bind (expect 58 r) (\<lambda>r.
                   Option.bind (take_digits 2 0 r) (\<lambda>(ss, r).
                   if r = [] then Some ss else None)))
              (\<lambda>ss.
                 Some (Some ((if c = 45 then - 1 else 1)
                             * int (hh * 3600 + mm * 60 + ss)))))))
          else None)"

definition spec_parse_timestamp :: "str \<Rightarrow> datetime option" where
  "spec_parse_timestamp s =
     Option.bind (take_digits 4 0 s) (\<lambda>(y, s).
     Option.bind (expect 45 s) (\<lambda>s.
     Option.bind (take_digits 2 0 s) (\<lambda>(mo, s).
     Option.bind (expect 45 s) (\<lambda>s.
     Option.bind (take_digits 2 0 s) (\<lambda>(d, s).
     Option.bind (expect 32 s) (\<lambda>s.
     Option.bind (take_digits 2 0 s) (\<lambda>(hh, s).
     Option.bind (expect 58 s) (\<lambda>s.
     Option.bind (take_digits 2 0 s) (\<lambda>(mi, s).
     Option.bind (expect 58 s) (\<lambda>s.
     Option.bind (take_digits 2 0 s) (\<lambda>(ss, s).
     Option.bind (parse_fraction s) (\<lambda>(us, s).
     Option.bind (parse_offset s) (\<lambda>off.
     Some \<lparr>year = y, month = mo, day = d, hour = hh, minute = mi, second = ss,
           microsecond = us, utcoffset = off\<rparr>)))))))))))))"

text \<open>
  A string with no whitespace at either end, and the kinds of effect the frame claim
  speaks of.
\<close>

definition unpadded :: "str \<Rightarrow> bool" where
  "unpadded s = (case s of [] \<Rightarrow> True | c # _ \<Rightarrow> \<not> isspace c \<and> \<not> isspace (last s))"

fun is_Spawn :: "effect \<Rightarrow> bool" where
  "is_Spawn (Spawn _) = True"
| "is_Spawn _ = False"

fun is_Append :: "effect \<Rightarrow> bool" where
  "is_Append (AppendCPPDEFINES _) = True"
| "is_Append _ = False"

fun is_ReadEnviron :: "effect \<Rightarrow> bool" where
  "is_ReadEnviron (ReadEnviron _) = True"
| "is_ReadEnviron _ = False"

fun is_WriteFile :: "effect \<Rightarrow> bool" where
  "is_WriteFile (WriteFile _ _) = True"
| "is_WriteFile _ = False"

section \<open>Example runs\<close>

text \<open>
  A clock reading, 2024-03-09 07:05:01.123456 local time, one hour east of UTC. Three
  hosts: in a repository on branch \<^verbatim>\<open>main\<close> at commit \<^verbatim>\<open>abc1234\<close> (git prints the
  answer and a newline); outside any repository (git exits with status 128), late in
  the evening five hours west of UTC; and one where no child process can be started.
  Three build environments: the project in
  \<^verbatim>\<open>/home/u/proj\<close>, in \<^verbatim>\<open>/home/u/proj/dummy\<close>, and one with no \<^verbatim>\<open>PROJECT_DIR\<close>.
\<close>

definition reading :: datetime where
  "reading = \<lparr>year = 2024, month = 3, day = 9, hour = 7, minute = 5, second = 1,
              microsecond = 123456, utcoffset = None\<rparr>"

definition host_main :: host where
  "host_main =
     \<lparr>run = (\<lambda>args.
              if args = branch_cmd then Exited 0 ''main\<newline>''
              else if args = rev_parse_cmd then Exited 0 ''abc1234\<newline>''
              else Exited 127 []),
      wall = reading, gmtoff = 3600\<rparr>"

definition host_outside_repo :: host where
  "host_outside_repo =
     \<lparr>run = (\<lambda>args. Exited 128 []), wall = reading\<lparr>hour := 23\<rparr>, gmtoff = - 18000\<rparr>"

definition host_no_child :: host where
  "host_no_child = \<lparr>run = (\<lambda>args. NotStarted), wall = reading, gmtoff = 3600\<rparr>"

definition env_proj :: build_env where
  "env_proj =
     \<lparr>vars = [str ''PROJECT_DIR'' \<mapsto> str ''/home/u/proj''],
      CPPDEFINES = [(str ''ARDUINO'', str ''10808'')]\<rparr>"

definition env_dummy :: build_env where
  "env_dummy =
     \<lparr>vars = [str ''PROJECT_DIR'' \<mapsto> str ''/home/u/proj/dummy''],
      CPPDEFINES = [(str ''ARDUINO'', str ''10808'')]\<rparr>"

definition env_no_project_dir :: build_env where
  "env_no_project_dir = \<lparr>vars = Map.empty, CPPDEFINES = [(str ''ARDUINO'', str ''10808'')]\<rparr>"

text \<open>
  Two more hosts: one where the branch query answers and the second child process
  cannot be started, and one where every query prints the byte \<^verbatim>\<open>0xE9\<close> and a newline
  (a name in Latin-1), which is not UTF-8.
\<close>

definition host_second_spawn_fails :: host where
  "host_second_spawn_fails =
     \<lparr>run = (\<lambda>args. if args = branch_cmd then Exited 0 ''main\<newline>'' else NotStarted),
      wall = reading, gmtoff = 3600\<rparr>"

definition host_latin1_branch :: host where
  "host_latin1_branch =
     \<lparr>run = (\<lambda>args. Exited 0 [CHR 0xE9, CHR 0x0A]), wall = reading, gmtoff = 3600\<rparr>"

text \<open>
  And the host on branch main whose time zone is set 24 hours east of UTC
  (\<^verbatim>\<open>TZ=XXX-24\<close>).
\<close>

definition host_offset_24h :: host where
  "host_offset_24h = host_main\<lparr>gmtoff := 86400\<rparr>"

section \<open>Paths: the project name is the final segment of \<^verbatim>\<open>PROJECT_DIR\<close>\<close>

lemma rfind_nonneg_iff: "0 \<le> rfind p c \<longleftrightarrow> c \<in> set p"
  by (induction p) (auto simp: Let_def)

lemma take_rfind: "take (nat (rfind p c + 1)) p = rev (dropWhile (\<lambda>x. x \<noteq> c) (rev p))"
proof (induction p)
  case Nil
  show ?case by simp
next
  case (Cons x xs)
  show ?case
  proof (cases "c \<in> set xs")
    case True
    then have r: "0 \<le> rfind xs c" by (simp add: rfind_nonneg_iff)
    then have n: "nat (rfind xs c + 1 + 1) = Suc (nat (rfind xs c + 1))" by simp
    from True have "dropWhile (\<lambda>x. x \<noteq> c) (rev xs @ [x]) = dropWhile (\<lambda>x. x \<noteq> c) (rev xs) @ [x]"
      by (intro dropWhile_append1[of c]) auto
    with r n Cons.IH show ?thesis by (simp add: Let_def)
  next
    case False
    then have r: "\<not> 0 \<le> rfind xs c" by (simp add: rfind_nonneg_iff)
    from False have "dropWhile (\<lambda>x. x \<noteq> c) (rev xs @ [x]) = dropWhile (\<lambda>x. x \<noteq> c) [x]"
      by (intro dropWhile_append2) auto
    with r show ?thesis by (simp add: Let_def)
  qed
qed

lemma drop_rfind: "drop (nat (rfind p c + 1)) p = rev (takeWhile (\<lambda>x. x \<noteq> c) (rev p))"
proof -
  have "take (nat (rfind p c + 1)) p @ drop (nat (rfind p c + 1)) p
      = rev (dropWhile (\<lambda>x. x \<noteq> c) (rev p)) @ rev (takeWhile (\<lambda>x. x \<noteq> c) (rev p))"
    by (simp flip: rev_append)
  then show ?thesis by (simp add: take_rfind)
qed

lemma snd_split: "snd (split p) = rev (takeWhile (\<lambda>x. x \<noteq> sep) (rev p))"
  by (simp add: split_def Let_def drop_rfind)

lemma dirname_eq:
  "dirname p = (let head = rev (dropWhile (\<lambda>x. x \<noteq> sep) (rev p)) in
      if head \<noteq> [] \<and> head \<noteq> replicate (length head) sep then rstrip_sep head else head)"
  unfolding dirname_def Let_def take_rfind ..

lemma str_simps: "str [] = []" "str (c # cs) = of_char c # str cs"
  by (simp_all add: str_def)

lemma dummy_no_sep: "sep \<notin> set (str ''dummy'')"
  by (simp add: str_def sep_def)

lemma dummy_not_startswith: "\<not> startswith_sep (str ''dummy'')"
  by (simp add: str_def sep_def startswith_sep_def)

lemma head_join_dummy:
  "rev (dropWhile (\<lambda>x. x \<noteq> sep) (rev (proj_path p))) =
     (if p = [] \<or> endswith_sep p then p else p @ [sep])"
proof -
  have d: "dropWhile (\<lambda>x. x \<noteq> sep) (rev (str ''dummy'') @ ys) = dropWhile (\<lambda>x. x \<noteq> sep) ys" for ys
    using dummy_no_sep by (intro dropWhile_append2) auto
  show ?thesis
  proof (cases "p = [] \<or> endswith_sep p")
    case True
    then have j: "proj_path p = p @ str ''dummy''"
      by (simp add: proj_path_def join_def dummy_not_startswith)
    from True have "dropWhile (\<lambda>x. x \<noteq> sep) (rev p) = rev p"
      by (cases "rev p") (auto simp: endswith_sep_def)
    with True j d show ?thesis by simp
  next
    case False
    then have j: "proj_path p = p @ [sep] @ str ''dummy''"
      by (simp add: proj_path_def join_def dummy_not_startswith)
    with False d show ?thesis by simp
  qed
qed

lemma all_sep_iff: "s = replicate (length s) sep \<longleftrightarrow> set s \<subseteq> {sep}"
  by (metis replicate_eqI set_replicate_conv_if subset_singletonD subsetI empty_iff insert_iff singletonD subset_iff)

lemma project_name_final_segment: "project_name p = spec_final_segment p"
proof -
  let ?h = "if p = [] \<or> endswith_sep p then p else p @ [sep]"
  have D: "dirname (proj_path p) =
      (if ?h \<noteq> [] \<and> ?h \<noteq> replicate (length ?h) sep then rstrip_sep ?h else ?h)"
    unfolding dirname_eq Let_def head_join_dummy ..
  show ?thesis
  proof (cases "p = []")
    case True
    with D show ?thesis by (simp add: project_name_def snd_split spec_final_segment_def)
  next
    case ne: False
    show ?thesis
    proof (cases "endswith_sep p")
      case False
      with ne obtain c cs where rp: "rev p = c # cs" "c \<noteq> sep"
        by (cases "rev p") (auto simp: endswith_sep_def)
      then have "c \<in> set p" by (metis list.set_intros(1) set_rev)
      with rp have "p @ [sep] \<noteq> replicate (length (p @ [sep])) sep"
        by (metis in_set_replicate UnI1 set_append)
      with D False ne rp have "dirname (proj_path p) = p"
        by (simp add: rstrip_sep_def rev_swap[symmetric] del: replicate_Suc)
      with rp show ?thesis by (simp add: project_name_def snd_split spec_final_segment_def)
    next
      case True
      then obtain cs where rp: "rev p = sep # cs"
        by (cases "rev p") (auto simp: endswith_sep_def)
      show ?thesis
      proof (cases "p = replicate (length p) sep")
        case allsep: True
        then have "set (rev p) \<subseteq> {sep}" by (metis all_sep_iff set_rev)
        then have dw: "dropWhile (\<lambda>c. c = sep) (rev p) = []" by auto
        from D ne True allsep have "dirname (proj_path p) = p" by simp
        then have "project_name p = rev (takeWhile (\<lambda>x. x \<noteq> sep) (rev p))"
          by (simp add: project_name_def snd_split)
        also have "\<dots> = []" using rp by simp
        finally show ?thesis by (simp add: spec_final_segment_def dw)
      next
        case False
        with D True ne have "dirname (proj_path p) = rstrip_sep p" by simp
        then show ?thesis by (simp add: project_name_def snd_split spec_final_segment_def rstrip_sep_def)
      qed
    qed
  qed
qed

lemma final_segment_trailing: "spec_final_segment (p @ replicate n sep) = spec_final_segment p"
proof -
  have "dropWhile (\<lambda>c. c = sep) (replicate n sep @ ys) = dropWhile (\<lambda>c. c = sep) ys" for ys
    by (induction n) auto
  then show ?thesis by (simp add: spec_final_segment_def)
qed

section \<open>Timestamps: formatting and reading back\<close>

lemma digits_small: "n < 10 \<Longrightarrow> digits n = [48 + n]"
  by (simp add: digits.simps)

lemma digits_step: "\<not> n < 10 \<Longrightarrow> digits n = digits (n div 10) @ [48 + n mod 10]"
  by (subst digits.simps) simp

lemma digits2: "n < 100 \<Longrightarrow> \<not> n < 10 \<Longrightarrow> digits n = [48 + n div 10, 48 + n mod 10]"
  by (simp add: digits_step digits_small)

lemma digits3: "n < 1000 \<Longrightarrow> \<not> n < 100 \<Longrightarrow> digits n = [48 + n div 100, 48 + n div 10 mod 10, 48 + n mod 10]"
proof -
  assume a: "n < 1000" "\<not> n < 100"
  then have "n div 10 < 100" "\<not> n div 10 < 10" by simp_all
  then have "digits (n div 10) = [48 + n div 10 div 10, 48 + n div 10 mod 10]" by (rule digits2)
  moreover have "n div 10 div 10 = n div 100" by (simp add: div_mult2_eq[symmetric])
  ultimately show ?thesis using a by (simp add: digits_step)
qed

lemma digits4: "n < 10000 \<Longrightarrow> \<not> n < 1000 \<Longrightarrow> digits n = [48 + n div 1000, 48 + n div 100 mod 10, 48 + n div 10 mod 10, 48 + n mod 10]"
proof -
  assume a: "n < 10000" "\<not> n < 1000"
  then have "n div 10 < 1000" "\<not> n div 10 < 100" by simp_all
  then have "digits (n div 10) = [48 + n div 10 div 100, 48 + n div 10 div 10 mod 10, 48 + n div 10 mod 10]" by (rule digits3)
  moreover have "n div 10 div 100 = n div 1000" "n div 10 div 10 = n div 100" by (simp_all add: div_mult2_eq[symmetric])
  ultimately show ?thesis using a by (simp add: digits_step)
qed

lemma zpad2: "n < 100 \<Longrightarrow> zpad 2 n = [48 + n div 10, 48 + n mod 10]"
  by (cases "n < 10") (simp_all add: zpad_def digits_small digits2)

lemma zpad4: "n < 10000 \<Longrightarrow> zpad 4 n = [48 + n div 1000, 48 + n div 100 mod 10, 48 + n div 10 mod 10, 48 + n mod 10]"
proof -
  assume n: "n < 10000"
  consider "n < 10" | "\<not> n < 10" "n < 100" | "\<not> n < 100" "n < 1000" | "\<not> n < 1000" by linarith
  then show ?thesis
  proof cases
    case 1
    then show ?thesis by (simp add: zpad_def digits_small numeral_3_eq_3)
  next
    case 2
    then show ?thesis by (simp add: zpad_def digits2 numeral_2_eq_2)
  next
    case 3
    then show ?thesis by (simp add: zpad_def digits3)
  next
    case 4
    with n show ?thesis by (simp add: zpad_def digits4)
  qed
qed

lemma take_digits_numeral:
  "take_digits (numeral k) acc (c # s) =
     (case digit c of None \<Rightarrow> None | Some d \<Rightarrow> take_digits (pred_numeral k) (10 * acc + d) s)"
  by (simp add: numeral_eq_Suc)

lemma digit_48: "a < 10 \<Longrightarrow> digit (48 + a) = Some a"
  by (simp add: digit_def)

lemma take_digits2: "n < 100 \<Longrightarrow> take_digits 2 0 (zpad 2 n @ r) = Some (n, r)"
proof -
  assume n: "n < 100"
  have d: "n div 10 < 10" "n mod 10 < 10" using n by simp_all
  have e: "10 * (n div 10) + n mod 10 = n" by simp
  have "take_digits 2 0 (zpad 2 n @ r) = Some (10 * (n div 10) + n mod 10, r)"
    using d by (simp add: zpad2[OF n] take_digits_numeral digit_48)
  with e show ?thesis by simp
qed

lemma horner4:
  fixes n a b c d0 d1 d2 :: nat
  shows "n = 10 * a + d0 \<Longrightarrow> a = 10 * b + d1 \<Longrightarrow> b = 10 * c + d2 \<Longrightarrow>
    10 * (10 * (10 * c + d2) + d1) + d0 = n"
  by simp

lemma take_digits4: "n < 10000 \<Longrightarrow> take_digits 4 0 (zpad 4 n @ r) = Some (n, r)"
proof -
  assume n: "n < 10000"
  have d: "n div 1000 < 10" "n div 100 mod 10 < 10" "n div 10 mod 10 < 10" "n mod 10 < 10"
    using n by simp_all
  have e1: "n = 10 * (n div 10) + n mod 10" by simp
  have e2: "n div 10 = 10 * (n div 100) + n div 10 mod 10"
    using div_mult_mod_eq[of "n div 10" 10] by (simp add: div_mult2_eq[symmetric])
  have e3: "n div 100 = 10 * (n div 1000) + n div 100 mod 10"
    using div_mult_mod_eq[of "n div 100" 10] by (simp add: div_mult2_eq[symmetric])
  have e: "10 * (10 * (10 * (n div 1000) + n div 100 mod 10) + n div 10 mod 10) + n mod 10 = n"
    by (rule horner4[OF e1 e2 e3])
  have "take_digits 4 0 (zpad 4 n @ r) =
     Some (10 * (10 * (10 * (n div 1000) + n div 100 mod 10) + n div 10 mod 10) + n mod 10, r)"
    using d by (simp add: zpad4[OF n] take_digits_numeral digit_48)
  with e show ?thesis by simp
qed

lemma take_digits2_end: "n < 100 \<Longrightarrow> take_digits 2 0 (zpad 2 n) = Some (n, [])"
  using take_digits2[of n "[]"] by simp

lemma zpad2_ne: "n < 100 \<Longrightarrow> zpad 2 n \<noteq> []"
  by (simp add: zpad2)

lemma hms:
  fixes a :: nat
  shows "a div 3600 * 3600 + a mod 3600 div 60 * 60 + a mod 60 = a"
proof -
  have "a mod 3600 mod 60 = a mod 60" by (simp add: mod_mod_cancel)
  then have 1: "a mod 3600 div 60 * 60 + a mod 60 = a mod 3600"
    using div_mult_mod_eq[of "a mod 3600" 60] by simp
  have 2: "a div 3600 * 3600 + a mod 3600 = a" by (rule div_mult_mod_eq)
  from 1 2 show ?thesis by (simp only: add.assoc)
qed

lemma parse_offset_body:
  assumes a: "a < 86400" and sg: "sg = 43 \<or> sg = 45"
  shows "parse_offset ([sg] @ zpad 2 (a div 3600) @ [58] @ zpad 2 (a mod 3600 div 60)
            @ (if a mod 60 \<noteq> 0 then [58] @ zpad 2 (a mod 60) else []))
         = Some (Some ((if sg = 45 then - 1 else 1) * int a))"
proof -
  from a have hh: "a div 3600 < 100" by simp
  have mm: "a mod 3600 div 60 < 100" by simp
  have ss: "a mod 60 < 100" by simp
  show ?thesis
  proof (cases "a mod 60 = 0")
    case True
    with hms[of a] have "int (a div 3600 * 3600 + a mod 3600 div 60 * 60) = int a" by simp
    with sg True show ?thesis
      unfolding parse_offset_def
      by (simp add: take_digits2[OF hh] take_digits2_end[OF mm] del: of_nat_add of_nat_mult)
  next
    case False
    from hms[of a] have "int (a div 3600 * 3600 + a mod 3600 div 60 * 60 + a mod 60) = int a" by simp
    with sg False show ?thesis
      unfolding parse_offset_def
      by (simp add: take_digits2[OF hh] take_digits2[OF mm] take_digits2_end[OF ss] zpad2_ne[OF ss]
          split: list.splits del: of_nat_add of_nat_mult)
  qed
qed

lemma parse_format_offset:
  assumes "valid_gmtoff d"
  shows "parse_offset (format_offset (Some d)) = Some (Some d)"
proof -
  have a: "nat \<bar>d\<bar> < 86400" using assms unfolding valid_gmtoff_def by linarith
  have sg: "(if d < 0 then 45 else 43) = (43::nat) \<or> (if d < 0 then 45 else 43) = (45::nat)" by simp
  have "(if (if d < 0 then 45 else 43) = (45::nat) then - 1 else 1) * int (nat \<bar>d\<bar>) = d" by simp
  with parse_offset_body[OF a sg] show ?thesis
    by (simp only: format_offset_def Let_def option.case)
qed

lemma parse_fraction_offset: "parse_fraction (format_offset (Some d)) = Some (0, format_offset (Some d))"
  by (simp add: parse_fraction_def format_offset_def Let_def)

lemma parse_isoformat:
  assumes v: "valid_datetime dt" and us: "microsecond dt = 0"
    and off: "utcoffset dt = Some d" and d: "valid_gmtoff d"
  shows "spec_parse_timestamp (isoformat 32 dt) = Some dt"
proof -
  from v have y: "year dt < 10000" and mo: "month dt < 100" and dd: "day dt < 100"
    and hh: "hour dt < 100" and mi: "minute dt < 100" and ss: "second dt < 100"
    by (simp_all add: valid_datetime_def)
  have "spec_parse_timestamp (isoformat 32 dt) =
      Some \<lparr>year = year dt, month = month dt, day = day dt, hour = hour dt,
            minute = minute dt, second = second dt, microsecond = 0, utcoffset = Some d\<rparr>"
    unfolding spec_parse_timestamp_def isoformat_def format_time_def
    by (simp add: us off take_digits4[OF y] take_digits2[OF mo] take_digits2[OF dd]
        take_digits2[OF hh] take_digits2[OF mi] take_digits2[OF ss]
        parse_fraction_offset parse_format_offset[OF d])
  also have "\<dots> = Some dt" using us off by simp
  finally show ?thesis .
qed

section \<open>The git queries\<close>

lemma get_branch_eq:
  "get_git_current_branch h =
     ([Spawn branch_cmd],
      case run h branch_cmd of
        NotStarted \<Rightarrow> Inl OSError
      | Exited rc out \<Rightarrow>
          if rc \<noteq> 0 then Inr (str ''N/A'')
          else (case utf8 (map of_char out) of
                  None \<Rightarrow> Inl UnicodeDecodeError
                | Some s \<Rightarrow> Inr (strip s)))"
  by (simp add: get_git_current_branch_def except_CalledProcessError_def bind_def check_output_def
      perform_def return_def decode_def split: proc_outcome.splits option.splits)

lemma get_hash_eq:
  "get_git_revision_short_hash h =
     ([Spawn rev_parse_cmd],
      case run h rev_parse_cmd of
        NotStarted \<Rightarrow> Inl OSError
      | Exited rc out \<Rightarrow>
          if rc \<noteq> 0 then Inr (str ''N/A'')
          else (case utf8 (map of_char out) of
                  None \<Rightarrow> Inl UnicodeDecodeError
                | Some s \<Rightarrow> Inr (strip s)))"
  by (simp add: get_git_revision_short_hash_def except_CalledProcessError_def bind_def check_output_def
      perform_def return_def decode_def split: proc_outcome.splits option.splits)

lemma fst_get_branch: "fst (get_git_current_branch h) = [Spawn branch_cmd]"
  by (simp add: get_branch_eq)

lemma fst_get_hash: "fst (get_git_revision_short_hash h) = [Spawn rev_parse_cmd]"
  by (simp add: get_hash_eq)

lemma tz_dt_valid:
  "valid_gmtoff (gmtoff h) \<Longrightarrow>
     tz_dt now h = Inr (isoformat 32 (now\<lparr>microsecond := 0, utcoffset := Some (gmtoff h)\<rparr>))"
  by (simp add: tz_dt_def astimezone_def replace_microsecond_0_def)

lemma tz_dt_invalid: "\<not> valid_gmtoff (gmtoff h) \<Longrightarrow> tz_dt now h = Inl ValueError"
  by (simp add: tz_dt_def astimezone_def)

lemma tz_dt_Inr:
  "tz_dt now h = Inr ts \<Longrightarrow>
     valid_gmtoff (gmtoff h)
     \<and> ts = isoformat 32 (now\<lparr>microsecond := 0, utcoffset := Some (gmtoff h)\<rparr>)"
  by (cases "valid_gmtoff (gmtoff h)") (auto simp: tz_dt_valid tz_dt_invalid)

lemma tz_dt_Inl: "tz_dt now h = Inl e \<Longrightarrow> \<not> valid_gmtoff (gmtoff h) \<and> e = ValueError"
  by (cases "valid_gmtoff (gmtoff h)") (auto simp: tz_dt_valid tz_dt_invalid)

lemma script_eq:
  "script h env =
     (case vars env (str ''PROJECT_DIR'') of
        None \<Rightarrow> ([GetItem (str ''PROJECT_DIR'')], Inl KeyError)
      | Some d \<Rightarrow>
          (case tz_dt ((wall h)\<lparr>utcoffset := None\<rparr>) h of
             Inl e \<Rightarrow> ([GetItem (str ''PROJECT_DIR''), ClockNow], Inl e)
           | Inr ts \<Rightarrow>
          (case snd (get_git_current_branch h) of
             Inl e \<Rightarrow> ([GetItem (str ''PROJECT_DIR''), ClockNow, Spawn branch_cmd], Inl e)
           | Inr b \<Rightarrow>
               (case snd (get_git_revision_short_hash h) of
                  Inl e \<Rightarrow>
                    ([GetItem (str ''PROJECT_DIR''), ClockNow, Spawn branch_cmd,
                      Spawn rev_parse_cmd], Inl e)
                | Inr c \<Rightarrow>
                    ([GetItem (str ''PROJECT_DIR''), ClockNow, Spawn branch_cmd,
                      Spawn rev_parse_cmd,
                      AppendCPPDEFINES
                        [(str ''PROJECT_PATH'', macro_value d),
                         (str ''CURRENT_TIME'', quote ts),
                         (str ''BRANCH_NAME'', quote b),
                         (str ''COMMIT_HASH'', quote c)]], Inr ())))))"
proof -
  obtain rb where b: "get_git_current_branch h = ([Spawn branch_cmd], rb)"
    using fst_get_branch[of h] by (cases "get_git_current_branch h") simp
  obtain rc where c: "get_git_revision_short_hash h = ([Spawn rev_parse_cmd], rc)"
    using fst_get_hash[of h] by (cases "get_git_revision_short_hash h") simp
  show ?thesis
    by (simp add: script_def bind_def getitem_def perform_def datetime_now_def Append_def b c
        split: option.splits sum.splits)
qed

lemma raised_None_iff:
  "raised h env = None \<longleftrightarrow>
     (\<exists>d ts b c. vars env (str ''PROJECT_DIR'') = Some d
        \<and> tz_dt ((wall h)\<lparr>utcoffset := None\<rparr>) h = Inr ts
        \<and> snd (get_git_current_branch h) = Inr b
        \<and> snd (get_git_revision_short_hash h) = Inr c)"
  by (auto simp: raised_def script_eq split: option.splits sum.splits)

lemma registered_ok:
  assumes "vars env (str ''PROJECT_DIR'') = Some d"
    and "tz_dt ((wall h)\<lparr>utcoffset := None\<rparr>) h = Inr ts"
    and "snd (get_git_current_branch h) = Inr b"
    and "snd (get_git_revision_short_hash h) = Inr c"
  shows "registered h env =
     [(str ''PROJECT_PATH'', macro_value d),
      (str ''CURRENT_TIME'', quote ts),
      (str ''BRANCH_NAME'', quote b),
      (str ''COMMIT_HASH'', quote c)]"
  using assms by (simp add: registered_def script_eq)

lemma registered_raised:
  assumes "raised h env = Some e"
  shows "registered h env = []"
  using assms by (auto simp: registered_def raised_def script_eq split: option.splits sum.splits)

lemma env_after_eq: "env_after h env = env\<lparr>CPPDEFINES := CPPDEFINES env @ registered h env\<rparr>"
  by (simp add: env_after_def registered_def script_eq split: option.splits sum.splits)

lemma branch_result:
  "snd (get_git_current_branch h) =
     (case run h branch_cmd of
        NotStarted \<Rightarrow> Inl OSError
      | Exited rc out \<Rightarrow>
          if rc \<noteq> 0 then Inr (str ''N/A'')
          else (case decode out of Inl e \<Rightarrow> Inl UnicodeDecodeError | Inr s \<Rightarrow> Inr (strip s)))"
  by (simp add: get_branch_eq decode_def split: proc_outcome.splits option.splits)

lemma hash_result:
  "snd (get_git_revision_short_hash h) =
     (case run h rev_parse_cmd of
        NotStarted \<Rightarrow> Inl OSError
      | Exited rc out \<Rightarrow>
          if rc \<noteq> 0 then Inr (str ''N/A'')
          else (case decode out of Inl e \<Rightarrow> Inl UnicodeDecodeError | Inr s \<Rightarrow> Inr (strip s)))"
  by (simp add: get_hash_eq decode_def split: proc_outcome.splits option.splits)

section \<open>Runs of the script and the example runs, evaluated\<close>

lemma cmds_differ: "branch_cmd \<noteq> rev_parse_cmd"
  by (simp add: branch_cmd_def rev_parse_cmd_def)

lemma decode_main: "decode ''main\<newline>'' = Inr (str ''main\<newline>'')"
  by (simp add: decode_def str_simps)

lemma decode_abc1234: "decode ''abc1234\<newline>'' = Inr (str ''abc1234\<newline>'')"
  by (simp add: decode_def str_simps)

lemma strip_main: "strip (str ''main\<newline>'') = str ''main''"
  by (simp add: strip_def isspace_def str_simps)

lemma strip_abc1234: "strip (str ''abc1234\<newline>'') = str ''abc1234''"
  by (simp add: strip_def isspace_def str_simps)

lemma tz_dt_reading:
  "tz_dt (reading\<lparr>utcoffset := None\<rparr>) host_main = Inr (str ''2024-03-09 07:05:01+01:00'')"
  by (simp add: tz_dt_def isoformat_def astimezone_def valid_gmtoff_def replace_microsecond_0_def
      reading_def host_main_def format_time_def format_offset_def zpad2 zpad4 str_simps)

lemma project_name_proj: "project_name (str ''/home/u/proj'') = str ''proj''"
  by (simp add: project_name_final_segment spec_final_segment_def str_simps sep_def)

lemma project_name_dummy: "project_name (str ''/home/u/proj/dummy'') = str ''dummy''"
  by (simp add: project_name_final_segment spec_final_segment_def str_simps sep_def)

lemma dirname_home_u_proj: "dirname (str ''/home/u/proj'') = str ''/home/u''"
  by (simp add: dirname_eq Let_def str_simps sep_def rstrip_sep_def)

lemma final_segment_home_u: "spec_final_segment (str ''/home/u'') = str ''u''"
  by (simp add: spec_final_segment_def str_simps sep_def)

lemma str_inject: "str a = str b \<longleftrightarrow> a = b"
  by (simp add: str_def inj_map_eq_map inj_on_def)

lemma vars_env_proj: "vars env_proj (str ''PROJECT_DIR'') = Some (str ''/home/u/proj'')"
  by (simp add: env_proj_def)

lemma branch_host_main: "snd (get_git_current_branch host_main) = Inr (str ''main'')"
  by (simp add: branch_result host_main_def decode_main strip_main)

lemma hash_host_main: "snd (get_git_revision_short_hash host_main) = Inr (str ''abc1234'')"
  using cmds_differ by (simp add: hash_result host_main_def decode_abc1234 strip_abc1234)

lemma branch_outside_repo: "snd (get_git_current_branch host_outside_repo) = Inr (str ''N/A'')"
  by (simp add: branch_result host_outside_repo_def)

lemma hash_outside_repo: "snd (get_git_revision_short_hash host_outside_repo) = Inr (str ''N/A'')"
  by (simp add: hash_result host_outside_repo_def)

lemma macro_value_proj: "macro_value (str ''/home/u/proj'') = str ''\"proj\"''"
  unfolding macro_value_def project_name_proj by (simp add: quote_def str_simps)

lemma quote_literals:
  "quote (str ''main'') = str ''\"main\"''"
  "quote (str ''abc1234'') = str ''\"abc1234\"''"
  "quote (str ''N/A'') = str ''\"N/A\"''"
  "quote (str ''2024-03-09 07:05:01+01:00'') = str ''\"2024-03-09 07:05:01+01:00\"''"
  "quote (str ''2024-03-09 23:05:01-05:00'') = str ''\"2024-03-09 23:05:01-05:00\"''"
  by (simp_all add: quote_def str_simps)

lemma tz_dt_run: "tz_dt now (h\<lparr>run := r\<rparr>) = tz_dt now h"
  by (simp add: tz_dt_def astimezone_def)

lemma tz_dt_outside_repo:
  "tz_dt ((wall host_outside_repo)\<lparr>utcoffset := None\<rparr>) host_outside_repo
     = Inr (str ''2024-03-09 23:05:01-05:00'')"
  by (simp add: tz_dt_def isoformat_def astimezone_def valid_gmtoff_def replace_microsecond_0_def
      reading_def host_outside_repo_def format_time_def format_offset_def zpad2 zpad4 str_simps)

lemma tz_dt_host_main:
  "tz_dt ((wall host_main)\<lparr>utcoffset := None\<rparr>) host_main
     = Inr (str ''2024-03-09 07:05:01+01:00'')"
  using tz_dt_reading by (simp add: host_main_def)

lemma registered_main_proj:
  "registered host_main env_proj =
     [(str ''PROJECT_PATH'', str ''\"proj\"''),
      (str ''CURRENT_TIME'', str ''\"2024-03-09 07:05:01+01:00\"''),
      (str ''BRANCH_NAME'', str ''\"main\"''),
      (str ''COMMIT_HASH'', str ''\"abc1234\"'')]"
  by (simp only: registered_ok[OF vars_env_proj tz_dt_host_main branch_host_main hash_host_main]
      macro_value_proj quote_literals)

lemma raised_main_proj: "raised host_main env_proj = None"
  using vars_env_proj tz_dt_host_main branch_host_main hash_host_main
  by (auto simp: raised_None_iff)

lemma registered_outside_repo_proj:
  "registered host_outside_repo env_proj =
     [(str ''PROJECT_PATH'', str ''\"proj\"''),
      (str ''CURRENT_TIME'', str ''\"2024-03-09 23:05:01-05:00\"''),
      (str ''BRANCH_NAME'', str ''\"N/A\"''),
      (str ''COMMIT_HASH'', str ''\"N/A\"'')]"
  by (simp only: registered_ok[OF vars_env_proj tz_dt_outside_repo branch_outside_repo
        hash_outside_repo] macro_value_proj quote_literals)

lemma raised_outside_repo_proj: "raised host_outside_repo env_proj = None"
  using vars_env_proj tz_dt_outside_repo branch_outside_repo hash_outside_repo
  by (auto simp: raised_None_iff)

lemma script_no_project_dir:
  "script h env_no_project_dir = ([GetItem (str ''PROJECT_DIR'')], Inl KeyError)"
  by (simp add: script_eq env_no_project_dir_def)

lemma quoted: "2 \<le> length (quote s) \<and> hd (quote s) = 34 \<and> last (quote s) = 34"
  by (simp add: quote_def)

lemma raised_no_child_proj: "raised host_no_child env_proj = Some OSError"
  by (simp add: raised_def script_eq vars_env_proj branch_result host_no_child_def
      tz_dt_def astimezone_def valid_gmtoff_def)

lemma branch_second_spawn_fails:
  "snd (get_git_current_branch host_second_spawn_fails) = Inr (str ''main'')"
  by (simp add: branch_result host_second_spawn_fails_def decode_main strip_main)

lemma hash_second_spawn_fails:
  "snd (get_git_revision_short_hash host_second_spawn_fails) = Inl OSError"
  using cmds_differ by (simp add: hash_result host_second_spawn_fails_def)

lemma branch_latin1: "snd (get_git_current_branch host_latin1_branch) = Inl UnicodeDecodeError"
  by (simp add: branch_result host_latin1_branch_def decode_def)

lemma raised_cases:
  "raised h env =
     (case vars env (str ''PROJECT_DIR'') of
        None \<Rightarrow> Some KeyError
      | Some d \<Rightarrow>
          (if \<not> valid_gmtoff (gmtoff h) then Some ValueError
           else
          (case snd (get_git_current_branch h) of
             Inl e \<Rightarrow> Some e
           | Inr b \<Rightarrow>
               (case snd (get_git_revision_short_hash h) of Inl e \<Rightarrow> Some e | Inr c \<Rightarrow> None))))"
  by (cases "valid_gmtoff (gmtoff h)")
    (simp_all add: raised_def script_eq tz_dt_valid tz_dt_invalid split: option.splits sum.splits)

lemma query_errors:
  "snd (get_git_current_branch h) = Inl e \<Longrightarrow> e = OSError \<or> e = UnicodeDecodeError"
  "snd (get_git_revision_short_hash h) = Inl e \<Longrightarrow> e = OSError \<or> e = UnicodeDecodeError"
  by (auto simp: branch_result hash_result split: proc_outcome.splits if_splits sum.splits)

lemma registered_prefix:
  assumes "raised h env = None" and "vars env (str ''PROJECT_DIR'') = Some d"
    and "tz_dt ((wall h)\<lparr>utcoffset := None\<rparr>) h = Inr ts"
  shows "take 2 (registered h env) =
     [(str ''PROJECT_PATH'', macro_value d), (str ''CURRENT_TIME'', quote ts)]"
proof -
  from assms(1) obtain b c where
    "snd (get_git_current_branch h) = Inr b" "snd (get_git_revision_short_hash h) = Inr c"
    by (auto simp: raised_None_iff)
  from registered_ok[OF assms(2) assms(3) this] show ?thesis by simp
qed

lemma raised_outside_with_main: "raised (host_outside_repo\<lparr>run := run host_main\<rparr>) env_proj = None"
proof -
  have "snd (get_git_current_branch (host_outside_repo\<lparr>run := run host_main\<rparr>)) = Inr (str ''main'')"
    by (simp add: branch_result host_main_def decode_main strip_main)
  moreover have "snd (get_git_revision_short_hash (host_outside_repo\<lparr>run := run host_main\<rparr>)) = Inr (str ''abc1234'')"
    using cmds_differ by (simp add: hash_result host_main_def decode_abc1234 strip_abc1234)
  moreover have "valid_gmtoff (gmtoff (host_outside_repo\<lparr>run := run host_main\<rparr>))"
    by (simp add: host_outside_repo_def valid_gmtoff_def)
  ultimately show ?thesis using vars_env_proj
    by (simp add: raised_cases)
qed

lemma project_path_registered:
  assumes "raised h env = None" and "vars env (str ''PROJECT_DIR'') = Some d"
  shows "map_of (registered h env) (str ''PROJECT_PATH'') = Some (macro_value d)"
proof -
  from assms obtain ts b c where
    "tz_dt ((wall h)\<lparr>utcoffset := None\<rparr>) h = Inr ts"
    "snd (get_git_current_branch h) = Inr b" "snd (get_git_revision_short_hash h) = Inr c"
    by (auto simp: raised_None_iff)
  from registered_ok[OF assms(2) this] show ?thesis by simp
qed

lemma last_dropWhile: "dropWhile P xs \<noteq> [] \<Longrightarrow> last (dropWhile P xs) = last xs"
  by (induction xs) (auto split: if_splits)

lemma strip_unpadded: "unpadded (strip s)"
proof (cases "strip s")
  case Nil
  then show ?thesis by (simp add: unpadded_def)
next
  case (Cons c cs)
  let ?t = "dropWhile isspace s"
  let ?u = "dropWhile isspace (rev ?t)"
  have s: "strip s = rev ?u" by (simp add: strip_def)
  with Cons have u: "?u \<noteq> []" by auto
  have t: "?t \<noteq> []"
  proof
    assume "?t = []"
    then have "?u = []" by (simp only: rev.simps dropWhile.simps)
    with u show False by blast
  qed
  have "last (strip s) = hd ?u" using u by (simp add: s last_rev)
  moreover have "\<not> isspace (hd ?u)" using u by (rule hd_dropWhile)
  moreover have "hd (strip s) = last ?u" using u by (simp add: s hd_rev)
  moreover have "last ?u = last (rev ?t)" using u by (rule last_dropWhile)
  moreover have "last (rev ?t) = hd ?t" using t by (simp add: last_rev)
  moreover have "\<not> isspace (hd ?t)" using t by (rule hd_dropWhile)
  ultimately have "\<not> isspace (hd (strip s)) \<and> \<not> isspace (last (strip s))" by simp
  with Cons show ?thesis by (simp add: unpadded_def)
qed

lemma list_all_takeWhile: "list_all P (takeWhile P xs)"
  by (induction xs) auto

lemma strip_decomposition:
  "\<exists>pre suf. s = pre @ strip s @ suf \<and> list_all isspace pre \<and> list_all isspace suf"
proof -
  let ?t = "dropWhile isspace s"
  let ?w = "takeWhile isspace (rev ?t)"
  have "?t = strip s @ rev ?w"
    unfolding strip_def by (metis rev_append rev_rev_ident takeWhile_dropWhile_id)
  then have "s = takeWhile isspace s @ strip s @ rev ?w"
    by (metis takeWhile_dropWhile_id)
  moreover have "list_all isspace (takeWhile isspace s)" by (rule list_all_takeWhile)
  moreover have "list_all isspace (rev ?w)"
    using list_all_takeWhile[of isspace "rev ?t"] by (simp add: list_all_iff)
  ultimately show ?thesis by blast
qed

lemma unpadded_NA: "unpadded (str ''N/A'')"
  by (simp add: unpadded_def str_simps isspace_def)

lemma query_unpadded:
  "snd (get_git_current_branch h) = Inr b \<Longrightarrow> unpadded b"
  "snd (get_git_revision_short_hash h) = Inr c \<Longrightarrow> unpadded c"
  using strip_unpadded unpadded_NA
  by (auto simp: branch_result hash_result split: proc_outcome.splits if_splits sum.splits)

lemma names_differ:
  "str ''BRANCH_NAME'' \<noteq> str ''PROJECT_PATH''" "str ''BRANCH_NAME'' \<noteq> str ''CURRENT_TIME''"
  "str ''COMMIT_HASH'' \<noteq> str ''PROJECT_PATH''" "str ''COMMIT_HASH'' \<noteq> str ''CURRENT_TIME''"
  "str ''COMMIT_HASH'' \<noteq> str ''BRANCH_NAME''" "str ''CURRENT_TIME'' \<noteq> str ''PROJECT_PATH''"
  by (simp_all add: str_inject)

lemma zpad2_props: "n < 100 \<Longrightarrow> length (zpad 2 n) = 2 \<and> 46 \<notin> set (zpad 2 n)"
  by (simp add: zpad2)

lemma zpad4_props: "n < 10000 \<Longrightarrow> length (zpad 4 n) = 4 \<and> 46 \<notin> set (zpad 4 n)"
  by (simp add: zpad4)

lemma count_clock:
  "count_list (fst (script h env)) ClockNow =
     (case vars env (str ''PROJECT_DIR'') of None \<Rightarrow> 0 | Some d \<Rightarrow> 1)"
  by (simp add: script_eq split: option.splits sum.splits)

lemma current_time_registered:
  assumes "raised h env = None"
  shows "\<exists>ts. tz_dt ((wall h)\<lparr>utcoffset := None\<rparr>) h = Inr ts
    \<and> map_of (registered h env) (str ''CURRENT_TIME'') = Some (quote ts)"
proof -
  from assms obtain d ts b c where
    "vars env (str ''PROJECT_DIR'') = Some d"
    "tz_dt ((wall h)\<lparr>utcoffset := None\<rparr>) h = Inr ts"
    "snd (get_git_current_branch h) = Inr b" "snd (get_git_revision_short_hash h) = Inr c"
    by (auto simp: raised_None_iff)
  from registered_ok[OF this] this(2) show ?thesis by (simp add: names_differ)
qed

lemma tz_dt_eq:
  "valid_gmtoff (gmtoff h) \<Longrightarrow>
   tz_dt now h =
     Inr ((zpad 4 (year now) @ [45] @ zpad 2 (month now) @ [45] @ zpad 2 (day now) @ [32]
      @ zpad 2 (hour now) @ [58] @ zpad 2 (minute now) @ [58] @ zpad 2 (second now))
     @ format_offset (Some (gmtoff h)))"
  by (simp add: tz_dt_valid isoformat_def format_time_def)

lemma format_offset_sign:
  "format_offset (Some d) \<noteq> [] \<and> (hd (format_offset (Some d)) = 43 \<or> hd (format_offset (Some d)) = 45)"
  by (simp add: format_offset_def Let_def)

lemma tz_dt_parse:
  assumes v: "valid_datetime now" and d: "valid_gmtoff (gmtoff h)"
    and t: "tz_dt now h = Inr ts"
  shows "spec_parse_timestamp ts = Some (now\<lparr>microsecond := 0, utcoffset := Some (gmtoff h)\<rparr>)"
proof -
  let ?dt = "now\<lparr>microsecond := 0, utcoffset := Some (gmtoff h)\<rparr>"
  have "valid_datetime ?dt" "microsecond ?dt = 0" "utcoffset ?dt = Some (gmtoff h)"
    using v by (simp_all add: valid_datetime_def)
  from parse_isoformat[OF this d] tz_dt_Inr[OF t] show ?thesis by simp
qed

lemma valid_reading: "valid_datetime (wall host_main) \<and> valid_gmtoff (gmtoff host_main)"
  by (simp add: host_main_def reading_def valid_datetime_def valid_gmtoff_def)

section \<open>The claims\<close>

subsection \<open>C1: a git query that fails\<close>

text \<open>
  C1, as the code has it. When the child process of a git query exits with a non-zero
  status, the query function spawns that one process and returns exactly \<^verbatim>\<open>"N/A"\<close>,
  which is not the empty string, and raises nothing; this holds for
  \<open>get_git_current_branch\<close> and for \<open>get_git_revision_short_hash\<close>. The
  query runs through the shell, so a git that is not installed is such a non-zero status.
  When the child process cannot be started at all, \<^verbatim>\<open>OSError\<close> is not a
  \<^verbatim>\<open>CalledProcessError\<close>: it is not caught and leaves the function.
\<close>

theorem git_query_failure:
  "(run h branch_cmd = Exited rc out \<longrightarrow> rc \<noteq> 0 \<longrightarrow>
      get_git_current_branch h = ([Spawn branch_cmd], Inr (str ''N/A'')))
   \<and> (run h rev_parse_cmd = Exited rc out \<longrightarrow> rc \<noteq> 0 \<longrightarrow>
      get_git_revision_short_hash h = ([Spawn rev_parse_cmd], Inr (str ''N/A'')))
   \<and> (run h branch_cmd = NotStarted \<longrightarrow>
      get_git_current_branch h = ([Spawn branch_cmd], Inl OSError))
   \<and> (run h rev_parse_cmd = NotStarted \<longrightarrow>
      get_git_revision_short_hash h = ([Spawn rev_parse_cmd], Inl OSError))
   \<and> str ''N/A'' \<noteq> []"
  by (simp add: get_branch_eq get_hash_eq str_simps)

text \<open>
  The two kinds of failure at concrete hosts: outside a repository both queries
  return \<^verbatim>\<open>"N/A"\<close>; where no child can be started both raise \<^verbatim>\<open>OSError\<close>.
\<close>

theorem git_query_failure_witness:
  "run host_outside_repo branch_cmd = Exited 128 []
   \<and> run host_outside_repo rev_parse_cmd = Exited 128 []
   \<and> get_git_current_branch host_outside_repo = ([Spawn branch_cmd], Inr (str ''N/A''))
   \<and> get_git_revision_short_hash host_outside_repo = ([Spawn rev_parse_cmd], Inr (str ''N/A''))
   \<and> run host_no_child branch_cmd = NotStarted
   \<and> run host_no_child rev_parse_cmd = NotStarted
   \<and> get_git_current_branch host_no_child = ([Spawn branch_cmd], Inl OSError)
   \<and> get_git_revision_short_hash host_no_child = ([Spawn rev_parse_cmd], Inl OSError)"
  using git_query_failure [of host_outside_repo 128 "[]"] git_query_failure [of host_no_child 0 "[]"]
  by (simp add: host_outside_repo_def host_no_child_def)

text \<open>
  C1 as stated fails where the subprocess is unavailable in the sense that it cannot
  be started: the field is not \<^verbatim>\<open>"N/A"\<close>, the exception propagates.
\<close>

theorem git_query_not_started_counterexample:
  "run host_no_child branch_cmd = NotStarted
   \<and> snd (get_git_current_branch host_no_child) = Inl OSError
   \<and> snd (get_git_current_branch host_no_child) \<noteq> Inr (str ''N/A'')
   \<and> run host_no_child rev_parse_cmd = NotStarted
   \<and> snd (get_git_revision_short_hash host_no_child) = Inl OSError
   \<and> snd (get_git_revision_short_hash host_no_child) \<noteq> Inr (str ''N/A'')"
  by (simp add: branch_result hash_result host_no_child_def)

subsection \<open>C2: the scenario on branch main\<close>

text \<open>
  C2, as the code has it. With \<^verbatim>\<open>PROJECT_DIR\<close> equal to \<^verbatim>\<open>/home/u/proj\<close>, so that
  the path the script builds, \<^verbatim>\<open>proj_path\<close>, is \<^verbatim>\<open>/home/u/proj/dummy\<close>, in a repository
  whose branch query prints \<^verbatim>\<open>main\<close> and whose short-hash query prints \<^verbatim>\<open>abc1234\<close>,
  and with a local UTC offset that a \<^verbatim>\<open>timezone\<close> can hold (else line 22 raises
  \<^verbatim>\<open>ValueError\<close>), the script completes and registers \<^verbatim>\<open>PROJECT_PATH="proj"\<close>, the
  quoted timestamp, \<^verbatim>\<open>BRANCH_NAME="main"\<close> and \<^verbatim>\<open>COMMIT_HASH="abc1234"\<close>, in this order.
\<close>

theorem scenario_main:
  assumes "vars env (str ''PROJECT_DIR'') = Some (str ''/home/u/proj'')"
    and "run h branch_cmd = Exited 0 ''main\<newline>''"
    and "run h rev_parse_cmd = Exited 0 ''abc1234\<newline>''"
    and "valid_gmtoff (gmtoff h)"
  shows "proj_path (str ''/home/u/proj'') = str ''/home/u/proj/dummy''
    \<and> raised h env = None
    \<and> (\<exists>ts. tz_dt ((wall h)\<lparr>utcoffset := None\<rparr>) h = Inr ts
          \<and> registered h env =
              [(str ''PROJECT_PATH'', str ''\"proj\"''),
               (str ''CURRENT_TIME'', quote ts),
               (str ''BRANCH_NAME'', str ''\"main\"''),
               (str ''COMMIT_HASH'', str ''\"abc1234\"'')])"
proof -
  have b: "snd (get_git_current_branch h) = Inr (str ''main'')"
    by (simp add: branch_result assms decode_main strip_main)
  have c: "snd (get_git_revision_short_hash h) = Inr (str ''abc1234'')"
    by (simp add: hash_result assms decode_abc1234 strip_abc1234)
  have p: "proj_path (str ''/home/u/proj'') = str ''/home/u/proj/dummy''"
    by (simp add: proj_path_def join_def startswith_sep_def endswith_sep_def str_simps sep_def)
  obtain ts where t: "tz_dt ((wall h)\<lparr>utcoffset := None\<rparr>) h = Inr ts"
    using tz_dt_valid[OF assms(4)] by blast
  have r: "raised h env = None"
    using assms(1) t b c by (auto simp: raised_None_iff)
  have q: "macro_value (str ''/home/u/proj'') = str ''\"proj\"''"
    unfolding macro_value_def project_name_proj by (simp add: quote_def str_simps)
  have "quote (str ''main'') = str ''\"main\"''" "quote (str ''abc1234'') = str ''\"abc1234\"''"
    by (simp_all add: quote_def str_simps)
  with registered_ok[OF assms(1) t b c] q
  have g: "registered h env =
              [(str ''PROJECT_PATH'', str ''\"proj\"''),
               (str ''CURRENT_TIME'', quote ts),
               (str ''BRANCH_NAME'', str ''\"main\"''),
               (str ''COMMIT_HASH'', str ''\"abc1234\"'')]"
    by simp
  have e: "\<exists>ts. tz_dt ((wall h)\<lparr>utcoffset := None\<rparr>) h = Inr ts
          \<and> registered h env =
              [(str ''PROJECT_PATH'', str ''\"proj\"''),
               (str ''CURRENT_TIME'', quote ts),
               (str ''BRANCH_NAME'', str ''\"main\"''),
               (str ''COMMIT_HASH'', str ''\"abc1234\"'')]"
    by (rule exI[of _ ts]) (rule conjI[OF t g])
  show ?thesis by (rule conjI[OF p conjI[OF r e]])
qed

text \<open>
  The scenario at a concrete host and environment, with the timestamp of the example
  clock reading.
\<close>

theorem scenario_main_witness:
  "vars env_proj (str ''PROJECT_DIR'') = Some (str ''/home/u/proj'')
   \<and> run host_main branch_cmd = Exited 0 ''main\<newline>''
   \<and> run host_main rev_parse_cmd = Exited 0 ''abc1234\<newline>''
   \<and> valid_gmtoff (gmtoff host_main)
   \<and> raised host_main env_proj = None
   \<and> registered host_main env_proj =
        [(str ''PROJECT_PATH'', str ''\"proj\"''),
         (str ''CURRENT_TIME'', str ''\"2024-03-09 07:05:01+01:00\"''),
         (str ''BRANCH_NAME'', str ''\"main\"''),
         (str ''COMMIT_HASH'', str ''\"abc1234\"'')]"
proof -
  have 1: "vars env_proj (str ''PROJECT_DIR'') = Some (str ''/home/u/proj'')"
    by (simp add: env_proj_def)
  have 2: "run host_main branch_cmd = Exited 0 ''main\<newline>''"
    by (simp add: host_main_def)
  have 3: "run host_main rev_parse_cmd = Exited 0 ''abc1234\<newline>''"
    using cmds_differ by (simp add: host_main_def)
  have 4: "valid_gmtoff (gmtoff host_main)"
    by (simp add: host_main_def valid_gmtoff_def)
  note t = scenario_main [OF 1 2 3 4]
  from t[THEN conjunct2, THEN conjunct1] 1 2 3 4 show ?thesis
    by (simp add: registered_main_proj)
qed

text \<open>
  C2 as stated, with the project directory itself equal to \<^verbatim>\<open>/home/u/proj/dummy\<close>:
  the registered \<^verbatim>\<open>PROJECT_PATH\<close> is \<^verbatim>\<open>"dummy"\<close>, not \<^verbatim>\<open>"proj"\<close>.
\<close>

theorem scenario_dummy_counterexample:
  "vars env_dummy (str ''PROJECT_DIR'') = Some (str ''/home/u/proj/dummy'')
   \<and> run host_main branch_cmd = Exited 0 ''main\<newline>''
   \<and> run host_main rev_parse_cmd = Exited 0 ''abc1234\<newline>''
   \<and> map_of (registered host_main env_dummy) (str ''PROJECT_PATH'') = Some (str ''\"dummy\"'')
   \<and> map_of (registered host_main env_dummy) (str ''PROJECT_PATH'') \<noteq> Some (str ''\"proj\"'')"
proof -
  have 1: "vars env_dummy (str ''PROJECT_DIR'') = Some (str ''/home/u/proj/dummy'')"
    by (simp add: env_dummy_def)
  have 2: "run host_main branch_cmd = Exited 0 ''main\<newline>''"
    by (simp add: host_main_def)
  have 3: "run host_main rev_parse_cmd = Exited 0 ''abc1234\<newline>''"
    using cmds_differ by (simp add: host_main_def)
  have b: "snd (get_git_current_branch host_main) = Inr (str ''main'')"
    by (simp add: branch_result 2 decode_main strip_main)
  have c: "snd (get_git_revision_short_hash host_main) = Inr (str ''abc1234'')"
    by (simp add: hash_result 3 decode_abc1234 strip_abc1234)
  have q: "macro_value (str ''/home/u/proj/dummy'') = str ''\"dummy\"''"
    unfolding macro_value_def project_name_dummy by (simp add: quote_def str_simps)
  have "str ''\"dummy\"'' \<noteq> str ''\"proj\"''" by (simp add: str_inject)
  with registered_ok[OF 1 tz_dt_host_main b c] 1 2 3 q show ?thesis by simp
qed

subsection \<open>C3: the project name\<close>

text \<open>
  C3, as the code has it. For every \<^verbatim>\<open>PROJECT_DIR\<close> string \<open>p\<close> the derived project
  name, the unquoted content of the \<^verbatim>\<open>PROJECT_PATH\<close> value, is the final path segment
  of \<open>p\<close> itself (not of the parent directory of \<open>p\<close>), and it is the same whatever
  number of separators is added at the end of \<open>p\<close>.
\<close>

theorem project_name_is_final_segment:
  "project_name p = spec_final_segment p
   \<and> project_name (p @ replicate n sep) = project_name p
   \<and> macro_value p = [34] @ spec_final_segment p @ [34]"
  by (simp add: project_name_final_segment final_segment_trailing macro_value_def quote_def)

text \<open>
  The project name for \<^verbatim>\<open>/home/u/proj\<close>, with and without trailing separators.
\<close>

theorem project_name_is_final_segment_witness:
  "project_name (str ''/home/u/proj'') = str ''proj''
   \<and> project_name (str ''/home/u/proj'' @ replicate 2 sep) = str ''proj''
   \<and> macro_value (str ''/home/u/proj'') = [34] @ str ''proj'' @ [34]"
  using project_name_is_final_segment [of "str ''/home/u/proj''" 2]
  by (simp add: project_name_proj)

text \<open>
  C3 as stated fails at \<^verbatim>\<open>/home/u/proj\<close>: the name is \<^verbatim>\<open>proj\<close>, while the final
  segment of the parent directory \<^verbatim>\<open>/home/u\<close> is \<^verbatim>\<open>u\<close>.
\<close>

theorem project_name_of_parent_counterexample:
  "project_name (str ''/home/u/proj'') = str ''proj''
   \<and> spec_final_segment (dirname (str ''/home/u/proj'')) = str ''u''
   \<and> project_name (str ''/home/u/proj'') \<noteq> spec_final_segment (dirname (str ''/home/u/proj''))"
  by (simp add: project_name_proj dirname_home_u_proj final_segment_home_u str_inject)

subsection \<open>C4: the four definitions\<close>

text \<open>
  C4, as the code has it. Every invocation that runs to completion, raising nothing,
  registers exactly four definitions, named \<^verbatim>\<open>PROJECT_PATH\<close>, \<^verbatim>\<open>CURRENT_TIME\<close>,
  \<^verbatim>\<open>BRANCH_NAME\<close> and \<^verbatim>\<open>COMMIT_HASH\<close> in this order, appended to the environment's
  \<^verbatim>\<open>CPPDEFINES\<close>; each value has at least two characters and begins and ends with a
  double quote (code point 34).
\<close>

theorem completed_run_registers_four:
  assumes "raised h env = None"
  shows "length (registered h env) = 4
    \<and> map fst (registered h env) =
        [str ''PROJECT_PATH'', str ''CURRENT_TIME'', str ''BRANCH_NAME'', str ''COMMIT_HASH'']
    \<and> list_all (\<lambda>v. 2 \<le> length v \<and> hd v = 34 \<and> last v = 34) (map snd (registered h env))
    \<and> CPPDEFINES (env_after h env) = CPPDEFINES env @ registered h env"
proof -
  from assms obtain d ts b c where
    "vars env (str ''PROJECT_DIR'') = Some d"
    "tz_dt ((wall h)\<lparr>utcoffset := None\<rparr>) h = Inr ts"
    "snd (get_git_current_branch h) = Inr b"
    "snd (get_git_revision_short_hash h) = Inr c"
    by (auto simp: raised_None_iff)
  from registered_ok[OF this] show ?thesis
    by (simp add: env_after_eq quoted macro_value_def)
qed

text \<open>
  The completed run on branch main registers its four quoted definitions.
\<close>

theorem completed_run_registers_four_witness:
  "raised host_main env_proj = None
   \<and> length (registered host_main env_proj) = 4
   \<and> map fst (registered host_main env_proj) =
        [str ''PROJECT_PATH'', str ''CURRENT_TIME'', str ''BRANCH_NAME'', str ''COMMIT_HASH'']
   \<and> list_all (\<lambda>v. 2 \<le> length v \<and> hd v = 34 \<and> last v = 34)
        (map snd (registered host_main env_proj))
   \<and> CPPDEFINES (env_after host_main env_proj) =
        CPPDEFINES env_proj @ registered host_main env_proj"
  using completed_run_registers_four [OF raised_main_proj] raised_main_proj by simp

text \<open>
  C4 as stated, for every invocation, fails where \<^verbatim>\<open>PROJECT_DIR\<close> is missing: the
  run raises \<^verbatim>\<open>KeyError\<close> and registers nothing.
\<close>

theorem no_project_dir_registers_nothing_counterexample:
  "vars env_no_project_dir (str ''PROJECT_DIR'') = None
   \<and> raised host_main env_no_project_dir = Some KeyError
   \<and> registered host_main env_no_project_dir = []
   \<and> length (registered host_main env_no_project_dir) \<noteq> 4"
  by (simp add: raised_def registered_def script_no_project_dir) (simp add: env_no_project_dir_def)

subsection \<open>C7: failures that are not handled\<close>

text \<open>
  C7. A failure other than a non-zero exit status of a git query is not recovered
  from. A missing \<^verbatim>\<open>PROJECT_DIR\<close> ends the script with \<^verbatim>\<open>KeyError\<close> after the one
  lookup; a local UTC offset that no \<^verbatim>\<open>timezone\<close> can hold ends it with
  \<^verbatim>\<open>ValueError\<close> at line 22, before any git query; an exception that leaves
  \<open>get_git_current_branch\<close>, or \<open>get_git_revision_short_hash\<close> after the branch
  query returned, is the exception the script ends with. Whenever the script ends with
  an exception, no definition is registered and the build environment is unchanged, and
  the exception is \<^verbatim>\<open>KeyError\<close>, \<^verbatim>\<open>ValueError\<close>, \<^verbatim>\<open>OSError\<close> or
  \<^verbatim>\<open>UnicodeDecodeError\<close>, never the \<^verbatim>\<open>CalledProcessError\<close> that the query functions
  handle.
\<close>

theorem failures_propagate:
  "(vars env (str ''PROJECT_DIR'') = None \<longrightarrow>
      script h env = ([GetItem (str ''PROJECT_DIR'')], Inl KeyError))
   \<and> (vars env (str ''PROJECT_DIR'') = Some d \<longrightarrow> \<not> valid_gmtoff (gmtoff h) \<longrightarrow>
      script h env = ([GetItem (str ''PROJECT_DIR''), ClockNow], Inl ValueError))
   \<and> (vars env (str ''PROJECT_DIR'') = Some d \<longrightarrow> valid_gmtoff (gmtoff h) \<longrightarrow>
      snd (get_git_current_branch h) = Inl e1 \<longrightarrow> raised h env = Some e1)
   \<and> (vars env (str ''PROJECT_DIR'') = Some d \<longrightarrow> valid_gmtoff (gmtoff h) \<longrightarrow>
      snd (get_git_current_branch h) = Inr b \<longrightarrow>
      snd (get_git_revision_short_hash h) = Inl e2 \<longrightarrow> raised h env = Some e2)
   \<and> (raised h env = Some e \<longrightarrow>
      registered h env = [] \<and> env_after h env = env
      \<and> (e = KeyError \<or> e = ValueError \<or> e = OSError \<or> e = UnicodeDecodeError))"
proof -
  have 1: "e = KeyError \<or> e = ValueError \<or> e = OSError \<or> e = UnicodeDecodeError"
    if "raised h env = Some e"
    using that query_errors[of h e]
    by (auto simp: raised_cases split: option.splits sum.splits if_splits)
  have 2: "script h env = ([GetItem (str ''PROJECT_DIR''), ClockNow], Inl ValueError)"
    if "vars env (str ''PROJECT_DIR'') = Some d" "\<not> valid_gmtoff (gmtoff h)"
    using that by (simp add: script_eq tz_dt_invalid)
  have 3: "script h env = ([GetItem (str ''PROJECT_DIR'')], Inl KeyError)"
    if "vars env (str ''PROJECT_DIR'') = None"
    using that by (simp add: script_eq)
  have 4: "registered h env = [] \<and> env_after h env = env" if "raised h env = Some e"
    using that by (simp add: registered_raised env_after_eq)
  from 1 2 3 4 show ?thesis
    by (auto simp: raised_cases)
qed

text \<open>
  The failures at concrete inputs: no \<^verbatim>\<open>PROJECT_DIR\<close>; a time zone 24 hours east of
  UTC; no child process can be started; output that is not UTF-8; the second child
  process cannot be started.
\<close>

theorem failures_propagate_witness:
  "vars env_no_project_dir (str ''PROJECT_DIR'') = None
   \<and> script host_main env_no_project_dir = ([GetItem (str ''PROJECT_DIR'')], Inl KeyError)
   \<and> raised host_main env_no_project_dir = Some KeyError
   \<and> registered host_main env_no_project_dir = []
   \<and> env_after host_main env_no_project_dir = env_no_project_dir
   \<and> script host_offset_24h env_proj
        = ([GetItem (str ''PROJECT_DIR''), ClockNow], Inl ValueError)
   \<and> raised host_no_child env_proj = Some OSError
   \<and> raised host_latin1_branch env_proj = Some UnicodeDecodeError
   \<and> raised host_second_spawn_fails env_proj = Some OSError
   \<and> registered host_second_spawn_fails env_proj = []
   \<and> env_after host_second_spawn_fails env_proj = env_proj"
proof -
  have n: "vars env_no_project_dir (str ''PROJECT_DIR'') = None"
    by (simp add: env_no_project_dir_def)
  have k: "raised host_main env_no_project_dir = Some KeyError"
    by (simp add: raised_def script_no_project_dir)
  have o: "snd (get_git_current_branch host_no_child) = Inl OSError"
    by (simp add: branch_result host_no_child_def)
  have v: "valid_gmtoff (gmtoff host_no_child)" "valid_gmtoff (gmtoff host_latin1_branch)"
    "valid_gmtoff (gmtoff host_second_spawn_fails)" "\<not> valid_gmtoff (gmtoff host_offset_24h)"
    by (simp_all add: host_no_child_def host_latin1_branch_def host_second_spawn_fails_def
        host_offset_24h_def valid_gmtoff_def)
  note a = failures_propagate [where env = env_no_project_dir and h = host_main and e = KeyError]
  note z = failures_propagate [where env = env_proj and h = host_offset_24h
      and d = "str ''/home/u/proj''"]
  note b = failures_propagate [where env = env_proj and h = host_no_child
      and d = "str ''/home/u/proj''" and ?e1.0 = OSError]
  note c = failures_propagate [where env = env_proj and h = host_latin1_branch
      and d = "str ''/home/u/proj''" and ?e1.0 = UnicodeDecodeError]
  note d = failures_propagate [where env = env_proj and h = host_second_spawn_fails
      and d = "str ''/home/u/proj''" and b = "str ''main''" and ?e2.0 = OSError and e = OSError]
  from a n k have 1: "script host_main env_no_project_dir = ([GetItem (str ''PROJECT_DIR'')], Inl KeyError)"
    "registered host_main env_no_project_dir = []" "env_after host_main env_no_project_dir = env_no_project_dir"
    by simp_all
  from z vars_env_proj v(4)
  have 0: "script host_offset_24h env_proj = ([GetItem (str ''PROJECT_DIR''), ClockNow], Inl ValueError)"
    by simp
  from b vars_env_proj o v(1) have 2: "raised host_no_child env_proj = Some OSError" by simp
  from c vars_env_proj branch_latin1 v(2)
  have 3: "raised host_latin1_branch env_proj = Some UnicodeDecodeError" by simp
  from d vars_env_proj branch_second_spawn_fails hash_second_spawn_fails v(3)
  have 4: "raised host_second_spawn_fails env_proj = Some OSError" by simp
  with d have 5: "registered host_second_spawn_fails env_proj = []"
    "env_after host_second_spawn_fails env_proj = env_proj" by simp_all
  from n k 0 1 2 3 4 5 show ?thesis by simp
qed

subsection \<open>C5: outside any git repository\<close>

text \<open>
  C5. When \<^verbatim>\<open>PROJECT_DIR\<close> is set, the local UTC offset is one a \<^verbatim>\<open>timezone\<close> can
  hold, and both git queries exit with a non-zero status, as git does outside a
  repository, the script completes and registers \<^verbatim>\<open>BRANCH_NAME="N/A"\<close> and
  \<^verbatim>\<open>COMMIT_HASH="N/A"\<close>, with \<^verbatim>\<open>PROJECT_PATH\<close> computed from the project directory and
  \<^verbatim>\<open>CURRENT_TIME\<close> from the clock; these first two definitions are the same as in any
  completed run on the same environment and clock, whatever the git queries do there.
\<close>

theorem outside_repository:
  assumes "vars env (str ''PROJECT_DIR'') = Some d"
    and "run h branch_cmd = Exited rb ob" and "rb \<noteq> 0"
    and "run h rev_parse_cmd = Exited rh oh" and "rh \<noteq> 0"
    and "valid_gmtoff (gmtoff h)"
  shows "raised h env = None
    \<and> (\<exists>ts. tz_dt ((wall h)\<lparr>utcoffset := None\<rparr>) h = Inr ts
          \<and> registered h env =
              [(str ''PROJECT_PATH'', macro_value d),
               (str ''CURRENT_TIME'', quote ts),
               (str ''BRANCH_NAME'', str ''\"N/A\"''),
               (str ''COMMIT_HASH'', str ''\"N/A\"'')])
    \<and> (\<forall>r. raised (h\<lparr>run := r\<rparr>) env = None \<longrightarrow>
          take 2 (registered (h\<lparr>run := r\<rparr>) env) = take 2 (registered h env))"
proof -
  have b: "snd (get_git_current_branch h) = Inr (str ''N/A'')"
    using assms by (simp add: branch_result)
  have c: "snd (get_git_revision_short_hash h) = Inr (str ''N/A'')"
    using assms by (simp add: hash_result)
  obtain ts where t: "tz_dt ((wall h)\<lparr>utcoffset := None\<rparr>) h = Inr ts"
    using tz_dt_valid[OF assms(6)] by blast
  have r: "raised h env = None" using assms(1) t b c by (auto simp: raised_None_iff)
  have g: "registered h env =
        [(str ''PROJECT_PATH'', macro_value d),
         (str ''CURRENT_TIME'', quote ts),
         (str ''BRANCH_NAME'', str ''\"N/A\"''),
         (str ''COMMIT_HASH'', str ''\"N/A\"'')]"
    by (simp only: registered_ok[OF assms(1) t b c] quote_literals)
  have "take 2 (registered (h\<lparr>run := r'\<rparr>) env) = take 2 (registered h env)"
    if "raised (h\<lparr>run := r'\<rparr>) env = None" for r'
  proof -
    have t': "tz_dt ((wall (h\<lparr>run := r'\<rparr>))\<lparr>utcoffset := None\<rparr>) (h\<lparr>run := r'\<rparr>) = Inr ts"
      using t by (simp add: tz_dt_run)
    from registered_prefix[OF that assms(1) t'] registered_prefix[OF r assms(1) t]
    show ?thesis by simp
  qed
  then have a: "\<forall>r. raised (h\<lparr>run := r\<rparr>) env = None \<longrightarrow>
          take 2 (registered (h\<lparr>run := r\<rparr>) env) = take 2 (registered h env)"
    by (intro allI impI)
  have e: "\<exists>ts. tz_dt ((wall h)\<lparr>utcoffset := None\<rparr>) h = Inr ts
          \<and> registered h env =
              [(str ''PROJECT_PATH'', macro_value d),
               (str ''CURRENT_TIME'', quote ts),
               (str ''BRANCH_NAME'', str ''\"N/A\"''),
               (str ''COMMIT_HASH'', str ''\"N/A\"'')]"
    by (rule exI[of _ ts]) (rule conjI[OF t g])
  show ?thesis by (rule conjI[OF r conjI[OF e a]])
qed

text \<open>
  The run outside a repository, and the first two definitions of a run with the same
  clock inside the repository on branch main.
\<close>

theorem outside_repository_witness:
  "vars env_proj (str ''PROJECT_DIR'') = Some (str ''/home/u/proj'')
   \<and> run host_outside_repo branch_cmd = Exited 128 []
   \<and> run host_outside_repo rev_parse_cmd = Exited 128 []
   \<and> valid_gmtoff (gmtoff host_outside_repo)
   \<and> raised host_outside_repo env_proj = None
   \<and> registered host_outside_repo env_proj =
        [(str ''PROJECT_PATH'', str ''\"proj\"''),
         (str ''CURRENT_TIME'', str ''\"2024-03-09 23:05:01-05:00\"''),
         (str ''BRANCH_NAME'', str ''\"N/A\"''),
         (str ''COMMIT_HASH'', str ''\"N/A\"'')]
   \<and> take 2 (registered (host_outside_repo\<lparr>run := run host_main\<rparr>) env_proj) =
        [(str ''PROJECT_PATH'', str ''\"proj\"''),
         (str ''CURRENT_TIME'', str ''\"2024-03-09 23:05:01-05:00\"'')]"
proof -
  have 1: "run host_outside_repo branch_cmd = Exited 128 []"
    and 2: "run host_outside_repo rev_parse_cmd = Exited 128 []"
    by (simp_all add: host_outside_repo_def)
  have 3: "(128::int) \<noteq> 0" by simp
  have 4: "valid_gmtoff (gmtoff host_outside_repo)"
    by (simp add: host_outside_repo_def valid_gmtoff_def)
  note t = outside_repository [OF vars_env_proj 1 3 2 3 4]
  note t2 = t[THEN conjunct2, THEN conjunct2, rule_format, OF raised_outside_with_main]
  from t2 show ?thesis
    by (simp add: vars_env_proj 1 2 4 raised_outside_repo_proj registered_outside_repo_proj)
qed

subsection \<open>C8: the effects of the script\<close>

text \<open>
  C8. In every run the effects of the script are among: the lookup of
  \<^verbatim>\<open>PROJECT_DIR\<close> in the build environment, one reading of the clock, the two git
  subprocesses and one append to \<^verbatim>\<open>CPPDEFINES\<close>. It spawns at most two subprocesses,
  appends at most once, writes no file and reads no environment variable; the build
  environment afterwards is the one before with the registered definitions, none or
  four, appended to \<^verbatim>\<open>CPPDEFINES\<close>.
\<close>

theorem script_footprint:
  "set (fst (script h env)) \<subseteq>
     {GetItem (str ''PROJECT_DIR''), ClockNow, Spawn branch_cmd, Spawn rev_parse_cmd,
      AppendCPPDEFINES (registered h env)}
   \<and> length (filter is_Spawn (fst (script h env))) \<le> 2
   \<and> length (filter is_Append (fst (script h env))) \<le> 1
   \<and> filter is_WriteFile (fst (script h env)) = []
   \<and> filter is_ReadEnviron (fst (script h env)) = []
   \<and> env_after h env = env\<lparr>CPPDEFINES := CPPDEFINES env @ registered h env\<rparr>
   \<and> (registered h env = [] \<or> length (registered h env) = 4)"
  by (simp add: env_after_eq) (simp add: registered_def script_eq split: option.splits sum.splits)

text \<open>
  The effects of the completed run on branch main, in order.
\<close>

theorem script_footprint_witness:
  "fst (script host_main env_proj) =
     [GetItem (str ''PROJECT_DIR''), ClockNow, Spawn branch_cmd, Spawn rev_parse_cmd,
      AppendCPPDEFINES (registered host_main env_proj)]
   \<and> length (filter is_Spawn (fst (script host_main env_proj))) \<le> 2
   \<and> length (filter is_Append (fst (script host_main env_proj))) \<le> 1
   \<and> filter is_WriteFile (fst (script host_main env_proj)) = []
   \<and> filter is_ReadEnviron (fst (script host_main env_proj)) = []
   \<and> env_after host_main env_proj =
       env_proj\<lparr>CPPDEFINES := CPPDEFINES env_proj @ registered host_main env_proj\<rparr>
   \<and> length (registered host_main env_proj) = 4"
proof -
  have "fst (script host_main env_proj) =
     [GetItem (str ''PROJECT_DIR''), ClockNow, Spawn branch_cmd, Spawn rev_parse_cmd,
      AppendCPPDEFINES (registered host_main env_proj)]"
    by (simp add: registered_def) (simp add: script_eq vars_env_proj tz_dt_host_main branch_host_main hash_host_main)
  moreover have "length (registered host_main env_proj) = 4"
    by (simp add: registered_main_proj)
  ultimately show ?thesis using script_footprint [of host_main env_proj] by simp
qed

subsection \<open>C10: the project path depends on the project directory only\<close>

text \<open>
  C10. For two completed runs whose build environments have the same
  \<^verbatim>\<open>PROJECT_DIR\<close>, on any two hosts (git outcomes, clock readings and time zones),
  the registered \<^verbatim>\<open>PROJECT_PATH\<close> values are the same: the value is \<open>macro_value\<close>
  of the \<^verbatim>\<open>PROJECT_DIR\<close> string.
\<close>

theorem project_path_function_of_project_dir:
  assumes "vars env1 (str ''PROJECT_DIR'') = vars env2 (str ''PROJECT_DIR'')"
    and "raised h1 env1 = None" and "raised h2 env2 = None"
  shows "map_of (registered h1 env1) (str ''PROJECT_PATH'')
           = map_of (registered h2 env2) (str ''PROJECT_PATH'')
    \<and> (\<exists>d. vars env1 (str ''PROJECT_DIR'') = Some d
          \<and> map_of (registered h1 env1) (str ''PROJECT_PATH'') = Some (macro_value d))"
proof -
  from assms(2) obtain d where d: "vars env1 (str ''PROJECT_DIR'') = Some d"
    by (auto simp: raised_None_iff)
  with assms(1) have d2: "vars env2 (str ''PROJECT_DIR'') = Some d" by simp
  from project_path_registered[OF assms(2) d] project_path_registered[OF assms(3) d2] d
  show ?thesis by simp
qed

text \<open>
  Two runs with the same \<^verbatim>\<open>PROJECT_DIR\<close>: on branch main in the morning, and
  outside a repository in the evening with an empty \<^verbatim>\<open>CPPDEFINES\<close>.
\<close>

theorem project_path_function_of_project_dir_witness:
  "vars env_proj (str ''PROJECT_DIR'') = vars (env_proj\<lparr>CPPDEFINES := []\<rparr>) (str ''PROJECT_DIR'')
   \<and> raised host_main env_proj = None
   \<and> raised host_outside_repo (env_proj\<lparr>CPPDEFINES := []\<rparr>) = None
   \<and> map_of (registered host_main env_proj) (str ''PROJECT_PATH'') = Some (str ''\"proj\"'')
   \<and> map_of (registered host_outside_repo (env_proj\<lparr>CPPDEFINES := []\<rparr>)) (str ''PROJECT_PATH'')
        = Some (str ''\"proj\"'')"
proof -
  have 1: "vars env_proj (str ''PROJECT_DIR'') = vars (env_proj\<lparr>CPPDEFINES := []\<rparr>) (str ''PROJECT_DIR'')"
    by simp
  have 2: "raised host_outside_repo (env_proj\<lparr>CPPDEFINES := []\<rparr>) = None"
    using vars_env_proj tz_dt_outside_repo branch_outside_repo hash_outside_repo
    by (auto simp: raised_None_iff)
  from project_path_function_of_project_dir [OF 1 raised_main_proj 2] 2 raised_main_proj
  show ?thesis by (simp add: registered_main_proj)
qed

subsection \<open>C6: the build timestamp\<close>

text \<open>
  C6. The clock reading is a valid \<^verbatim>\<open>datetime\<close> and the local offset one that a
  \<^verbatim>\<open>timezone\<close> can hold. The script reads the clock at most once, and exactly once
  when \<^verbatim>\<open>PROJECT_DIR\<close> is set, so in every run that completes. Line 22 then yields a
  timestamp, and in a run that completes the registered \<^verbatim>\<open>CURRENT_TIME\<close> is that
  timestamp, quoted. The timestamp is nineteen characters of date and time, with a space
  between them and no fraction, followed by the UTC offset, which starts with its sign.
  Reading it back gives the clock reading with the microseconds set to zero, that is
  the same second, at the local offset.
\<close>

theorem timestamp_second_precision_with_offset:
  assumes "valid_datetime (wall h)" and "valid_gmtoff (gmtoff h)"
  shows "count_list (fst (script h env)) ClockNow \<le> 1
    \<and> (vars env (str ''PROJECT_DIR'') = Some d \<longrightarrow>
         count_list (fst (script h env)) ClockNow = 1)
    \<and> (\<exists>ts. tz_dt ((wall h)\<lparr>utcoffset := None\<rparr>) h = Inr ts
          \<and> (raised h env = None \<longrightarrow>
               count_list (fst (script h env)) ClockNow = 1
               \<and> map_of (registered h env) (str ''CURRENT_TIME'') = Some (quote ts))
          \<and> (\<exists>body. ts = body @ format_offset (Some (gmtoff h))
                \<and> length body = 19 \<and> body ! 10 = 32 \<and> 46 \<notin> set body)
          \<and> spec_parse_timestamp ts
              = Some ((wall h)\<lparr>microsecond := 0, utcoffset := Some (gmtoff h)\<rparr>))
    \<and> (hd (format_offset (Some (gmtoff h))) = 43 \<or> hd (format_offset (Some (gmtoff h))) = 45)"
proof -
  let ?now = "(wall h)\<lparr>utcoffset := None\<rparr>"
  have v: "valid_datetime ?now" using assms(1) by (simp add: valid_datetime_def)
  then have y: "year ?now < 10000" and mo: "month ?now < 100" and dd: "day ?now < 100"
    and hh: "hour ?now < 100" and mi: "minute ?now < 100" and ss: "second ?now < 100"
    by (simp_all add: valid_datetime_def)
  let ?body = "zpad 4 (year ?now) @ [45] @ zpad 2 (month ?now) @ [45] @ zpad 2 (day ?now) @ [32]
      @ zpad 2 (hour ?now) @ [58] @ zpad 2 (minute ?now) @ [58] @ zpad 2 (second ?now)"
  obtain ts where t: "tz_dt ?now h = Inr ts"
    using tz_dt_valid[OF assms(2)] by blast
  have e: "ts = ?body @ format_offset (Some (gmtoff h))"
    using t tz_dt_eq[OF assms(2), of ?now] by simp
  have b2: "length ?body = 19"
    using zpad4_props[OF y] zpad2_props[OF mo] zpad2_props[OF dd] zpad2_props[OF hh]
      zpad2_props[OF mi] zpad2_props[OF ss] by simp
  have b3: "?body ! 10 = 32"
    using zpad4_props[OF y] zpad2_props[OF mo] zpad2_props[OF dd] by (simp add: nth_append)
  have b4: "46 \<notin> set ?body"
    using zpad4_props[OF y] zpad2_props[OF mo] zpad2_props[OF dd] zpad2_props[OF hh]
      zpad2_props[OF mi] zpad2_props[OF ss] by simp
  have body: "\<exists>body. ts = body @ format_offset (Some (gmtoff h))
          \<and> length body = 19 \<and> body ! 10 = 32 \<and> 46 \<notin> set body"
    by (rule exI[of _ ?body]) (rule conjI[OF e conjI[OF b2 conjI[OF b3 b4]]])
  have c1: "count_list (fst (script h env)) ClockNow \<le> 1"
    by (simp add: count_clock split: option.splits)
  have c3: "vars env (str ''PROJECT_DIR'') = Some d \<longrightarrow>
      count_list (fst (script h env)) ClockNow = 1"
    by (simp add: count_clock)
  have c2: "raised h env = None \<longrightarrow>
      count_list (fst (script h env)) ClockNow = 1
      \<and> map_of (registered h env) (str ''CURRENT_TIME'') = Some (quote ts)"
  proof
    assume r: "raised h env = None"
    then have "count_list (fst (script h env)) ClockNow = 1"
      by (auto simp: count_clock raised_None_iff)
    moreover from current_time_registered[OF r] t
    have "map_of (registered h env) (str ''CURRENT_TIME'') = Some (quote ts)" by auto
    ultimately show "count_list (fst (script h env)) ClockNow = 1
      \<and> map_of (registered h env) (str ''CURRENT_TIME'') = Some (quote ts)" ..
  qed
  have "spec_parse_timestamp ts = Some (?now\<lparr>microsecond := 0, utcoffset := Some (gmtoff h)\<rparr>)"
    by (rule tz_dt_parse[OF v assms(2) t])
  then have p: "spec_parse_timestamp ts
      = Some ((wall h)\<lparr>microsecond := 0, utcoffset := Some (gmtoff h)\<rparr>)"
    by simp
  have ex: "\<exists>ts. tz_dt ?now h = Inr ts
      \<and> (raised h env = None \<longrightarrow>
           count_list (fst (script h env)) ClockNow = 1
           \<and> map_of (registered h env) (str ''CURRENT_TIME'') = Some (quote ts))
      \<and> (\<exists>body. ts = body @ format_offset (Some (gmtoff h))
            \<and> length body = 19 \<and> body ! 10 = 32 \<and> 46 \<notin> set body)
      \<and> spec_parse_timestamp ts = Some ((wall h)\<lparr>microsecond := 0, utcoffset := Some (gmtoff h)\<rparr>)"
    by (rule exI[of _ ts]) (rule conjI[OF t conjI[OF c2 conjI[OF body p]]])
  note fs = format_offset_sign[of "gmtoff h", THEN conjunct2]
  show ?thesis by (rule conjI[OF c1 conjI[OF c3 conjI[OF ex fs]]])
qed

text \<open>
  The timestamp of the example reading, 07:05:01.123456 one hour east of UTC, read
  back.
\<close>

theorem timestamp_second_precision_with_offset_witness:
  "valid_datetime (wall host_main) \<and> valid_gmtoff (gmtoff host_main)
   \<and> vars env_proj (str ''PROJECT_DIR'') = Some (str ''/home/u/proj'')
   \<and> raised host_main env_proj = None
   \<and> count_list (fst (script host_main env_proj)) ClockNow = 1
   \<and> tz_dt ((wall host_main)\<lparr>utcoffset := None\<rparr>) host_main
        = Inr (str ''2024-03-09 07:05:01+01:00'')
   \<and> map_of (registered host_main env_proj) (str ''CURRENT_TIME'')
        = Some (str ''\"2024-03-09 07:05:01+01:00\"'')
   \<and> spec_parse_timestamp (str ''2024-03-09 07:05:01+01:00'')
        = Some \<lparr>year = 2024, month = 3, day = 9, hour = 7, minute = 5, second = 1,
                microsecond = 0, utcoffset = Some 3600\<rparr>"
proof -
  have v: "valid_datetime (wall host_main)" "valid_gmtoff (gmtoff host_main)"
    using valid_reading by simp_all
  note t = timestamp_second_precision_with_offset
    [OF v, where env = env_proj and d = "str ''/home/u/proj''"]
  have w: "(wall host_main)\<lparr>microsecond := 0, utcoffset := Some (gmtoff host_main)\<rparr>
     = \<lparr>year = 2024, month = 3, day = 9, hour = 7, minute = 5, second = 1,
                microsecond = 0, utcoffset = Some 3600\<rparr>"
    by (simp add: host_main_def reading_def)
  from t have "\<exists>ts. tz_dt ((wall host_main)\<lparr>utcoffset := None\<rparr>) host_main = Inr ts
          \<and> (raised host_main env_proj = None \<longrightarrow>
               count_list (fst (script host_main env_proj)) ClockNow = 1
               \<and> map_of (registered host_main env_proj) (str ''CURRENT_TIME'') = Some (quote ts))
          \<and> (\<exists>body. ts = body @ format_offset (Some (gmtoff host_main))
                \<and> length body = 19 \<and> body ! 10 = 32 \<and> 46 \<notin> set body)
          \<and> spec_parse_timestamp ts
              = Some ((wall host_main)\<lparr>microsecond := 0, utcoffset := Some (gmtoff host_main)\<rparr>)"
    by (elim conjE)
  then obtain ts where all:
    "tz_dt ((wall host_main)\<lparr>utcoffset := None\<rparr>) host_main = Inr ts
          \<and> (raised host_main env_proj = None \<longrightarrow>
               count_list (fst (script host_main env_proj)) ClockNow = 1
               \<and> map_of (registered host_main env_proj) (str ''CURRENT_TIME'') = Some (quote ts))
          \<and> (\<exists>body. ts = body @ format_offset (Some (gmtoff host_main))
                \<and> length body = 19 \<and> body ! 10 = 32 \<and> 46 \<notin> set body)
          \<and> spec_parse_timestamp ts
              = Some ((wall host_main)\<lparr>microsecond := 0, utcoffset := Some (gmtoff host_main)\<rparr>)"
    by (rule exE)
  note ts = all[THEN conjunct1]
  note r = all[THEN conjunct2, THEN conjunct1]
  note p = all[THEN conjunct2, THEN conjunct2, THEN conjunct2]
  from ts have e: "ts = str ''2024-03-09 07:05:01+01:00''" by (simp add: tz_dt_host_main)
  from r p v vars_env_proj raised_main_proj show ?thesis
    unfolding e w by (simp add: tz_dt_host_main quote_literals)
qed

subsection \<open>C9: no whitespace around a query result\<close>

text \<open>
  C9. When a git query exits with status 0 and its output decodes to \<open>s\<close>, the
  query function returns \<open>strip s\<close>: \<open>s\<close> without a longest prefix and suffix of
  whitespace, so with no whitespace character at either end. The newline that ends
  git's output is whitespace. In a run that completes, the \<^verbatim>\<open>BRANCH_NAME\<close> and
  \<^verbatim>\<open>COMMIT_HASH\<close> values are quoted strings with no whitespace at either end inside
  the quotes.
\<close>

theorem git_query_stripped:
  "(run h branch_cmd = Exited 0 out \<longrightarrow> decode out = Inr s \<longrightarrow>
      snd (get_git_current_branch h) = Inr (strip s))
   \<and> (run h rev_parse_cmd = Exited 0 out \<longrightarrow> decode out = Inr s \<longrightarrow>
      snd (get_git_revision_short_hash h) = Inr (strip s))
   \<and> unpadded (strip s)
   \<and> (\<exists>pre suf. s = pre @ strip s @ suf \<and> list_all isspace pre \<and> list_all isspace suf)
   \<and> isspace 10
   \<and> (raised h env = None \<longrightarrow>
        (\<exists>b c. map_of (registered h env) (str ''BRANCH_NAME'') = Some (quote b) \<and> unpadded b
           \<and> map_of (registered h env) (str ''COMMIT_HASH'') = Some (quote c) \<and> unpadded c))"
proof -
  have "\<exists>b c. map_of (registered h env) (str ''BRANCH_NAME'') = Some (quote b) \<and> unpadded b
           \<and> map_of (registered h env) (str ''COMMIT_HASH'') = Some (quote c) \<and> unpadded c"
    if "raised h env = None"
  proof -
    from that obtain d ts b c where
      *: "vars env (str ''PROJECT_DIR'') = Some d"
      "tz_dt ((wall h)\<lparr>utcoffset := None\<rparr>) h = Inr ts"
      "snd (get_git_current_branch h) = Inr b"
      "snd (get_git_revision_short_hash h) = Inr c"
      by (auto simp: raised_None_iff)
    from registered_ok[OF *] query_unpadded(1)[OF *(3)] query_unpadded(2)[OF *(4)]
    show ?thesis by (auto simp: names_differ)
  qed
  moreover have "isspace 10" by (simp add: isspace_def)
  ultimately show ?thesis
    using strip_unpadded[of s] strip_decomposition[of s]
    by (simp add: branch_result hash_result)
qed

text \<open>
  The branch query on branch main: \<^verbatim>\<open>main\<close> and a newline become \<^verbatim>\<open>main\<close>.
\<close>

theorem git_query_stripped_witness:
  "run host_main branch_cmd = Exited 0 ''main\<newline>''
   \<and> decode ''main\<newline>'' = Inr (str ''main\<newline>'')
   \<and> snd (get_git_current_branch host_main) = Inr (str ''main'')
   \<and> unpadded (str ''main'')
   \<and> raised host_main env_proj = None
   \<and> (\<exists>b c. map_of (registered host_main env_proj) (str ''BRANCH_NAME'') = Some (quote b)
         \<and> unpadded b
         \<and> map_of (registered host_main env_proj) (str ''COMMIT_HASH'') = Some (quote c)
         \<and> unpadded c)"
proof -
  have 1: "run host_main branch_cmd = Exited 0 ''main\<newline>''" by (simp add: host_main_def)
  note t = git_query_stripped [of host_main "''main\<newline>''" "str ''main\<newline>''" env_proj]
  from t 1 decode_main raised_main_proj show ?thesis
    by (simp add: strip_main)
qed

end
